theory Spec2Isabelle
  imports Main "HOL-Library.Sublist"
begin

section \<open>Values, errors and text\<close>

text \<open>
  The module \<^verbatim>\<open>questions.py\<close> loads a corpus of questions from a JSON file and
  builds three prompts, each one Python f-string around a single argument.

  A Python \<^verbatim>\<open>str\<close> is modelled by the bytes of its UTF-8 encoding, as a
  \<^typ>\<open>string\<close>: the encoding is injective and self-synchronising, so equality and
  the substring relation of two texts are those of their encodings. The few characters of
  the templates beyond ASCII are named constants (\<open>uni_arrow\<close>, \<open>uni_cross\<close>, ...).
\<close>

text \<open>What \<^verbatim>\<open>json.load\<close> can return.\<close>

datatype pyval =
    PyNone
  | PyBool bool
  | PyInt int
  | PyFloat string  \<comment> \<open>a float, kept as the literal that was read\<close>
  | PyStr string
  | PyList "pyval list"
  | PyDict "(string \<times> pyval) list"

text \<open>The exceptions the module's code can meet.\<close>

datatype exn =
    FileNotFoundError
  | OSError
  | JSONDecodeError
  | NameError string

text \<open>
  A text of several lines, every line followed by a line feed: the body of a
  triple-quoted literal from the line after the opening quotes on.
\<close>

definition text_lines :: "string list \<Rightarrow> string" where
  "text_lines ls = concat (map (\<lambda>l. l @ ''\<newline>'') ls)"

section \<open>The corpus loader\<close>

text \<open>
  \<^verbatim>\<open>
  def get_questions():
      try:
          with open("all_questions.json", "r") as f:
              return json.load(f)
      except:
          return []
  \<close>
  The function reads one fixed location. Its state is the input of the model: the file is
  absent, or it cannot be opened or read, or it is read; what is read either fails to
  deserialize or deserializes to a value.
\<close>

datatype content =
    Malformed        \<comment> \<open>\<^verbatim>\<open>json.load\<close> raises on it\<close>
  | Document pyval   \<comment> \<open>\<^verbatim>\<open>json.load\<close> returns this value for it\<close>

datatype corpus_file =
    Absent
  | Unreadable
  | Readable content

definition open_read :: "corpus_file \<Rightarrow> exn + content" where
  "open_read file =
     (case file of
        Absent \<Rightarrow> Inl FileNotFoundError
      | Unreadable \<Rightarrow> Inl OSError
      | Readable c \<Rightarrow> Inr c)"

definition json_load :: "content \<Rightarrow> exn + pyval" where
  "json_load c =
     (case c of
        Malformed \<Rightarrow> Inl JSONDecodeError
      | Document v \<Rightarrow> Inr v)"

text \<open>
  The bare \<^verbatim>\<open>except:\<close> catches whatever the body raises and returns the empty
  list; a value the body returns is returned as it is.
\<close>

definition get_questions :: "corpus_file \<Rightarrow> exn + pyval" where
  "get_questions file =
     (case (case open_read file of Inl e \<Rightarrow> Inl e | Inr f \<Rightarrow> json_load f) of
        Inl e \<Rightarrow> Inr (PyList [])
      | Inr v \<Rightarrow> Inr v)"

section \<open>Module constants\<close>

definition BASE_URL :: string where
  "BASE_URL = ''https://deepwiki.com/code-423n4/2025-12-panoptic''"

definition questions :: "corpus_file \<Rightarrow> exn + pyval" where
  "questions file = get_questions file"

definition questions_generator :: "string list" where
  "questions_generator =
     [''./contracts/PanopticPool.sol'',
      ''./contracts/RiskEngine.sol'',
      ''./contracts/types/OraclePack.sol'',
      ''./contracts/types/MarketState.sol'',
      ''./contracts/types/PoolData.sol'',
      ''./contracts/types/RiskParameters.sol'',
      ''./contracts/SemiFungiblePositionManager.sol'',
      ''./contracts/SemiFungiblePositionManagerV4.sol'',
      ''./contracts/CollateralTracker.sol'',
      ''./contracts/libraries/PanopticMath.sol'',
      ''./contracts/libraries/Math.sol'',
      ''./contracts/types/TokenId.sol'']"

section \<open>Formatted string literals\<close>

text \<open>
  An f-string is a sequence of literal texts and replacement fields. Every field of this
  module is a bare name with no conversion and no format specification, so it stands for
  the text of the value bound to the name. A doubled brace of the source is one brace of
  the literal text.
\<close>

datatype piece =
    Lit string
  | Field string

text \<open>
  The scope gives, for each name that is bound, the text its value formats to. Fields are
  evaluated from left to right; a name that is not bound raises \<^verbatim>\<open>NameError\<close>.
\<close>

fun format_pieces :: "(string \<rightharpoonup> string) \<Rightarrow> piece list \<Rightarrow> exn + string" where
  "format_pieces scope [] = Inr []"
| "format_pieces scope (Lit s # ps) =
     (case format_pieces scope ps of
        Inl e \<Rightarrow> Inl e
      | Inr t \<Rightarrow> Inr (s @ t))"
| "format_pieces scope (Field n # ps) =
     (case scope n of
        None \<Rightarrow> Inl (NameError n)
      | Some v \<Rightarrow>
          (case format_pieces scope ps of
             Inl e \<Rightarrow> Inl e
           | Inr t \<Rightarrow> Inr (v @ t)))"

section \<open>The texts of the three prompts\<close>

text \<open>
  Each definition below is a run of consecutive lines of one of the three f-strings, in
  the order of the source. The characters beyond ASCII come first.
\<close>

definition uni_times :: string where
  \<open>uni_times = [CHR 0xC3, CHR 0x97]\<close>

definition uni_em_dash :: string where
  \<open>uni_em_dash = [CHR 0xE2, CHR 0x80, CHR 0x94]\<close>

definition uni_arrow :: string where
  \<open>uni_arrow = [CHR 0xE2, CHR 0x86, CHR 0x92]\<close>

definition uni_le :: string where
  \<open>uni_le = [CHR 0xE2, CHR 0x89, CHR 0xA4]\<close>

definition uni_ge :: string where
  \<open>uni_ge = [CHR 0xE2, CHR 0x89, CHR 0xA5]\<close>

definition uni_warning :: string where
  \<open>uni_warning = [CHR 0xE2, CHR 0x9A, CHR 0xA0]\<close>

definition uni_check :: string where
  \<open>uni_check = [CHR 0xE2, CHR 0x9C, CHR 0x85]\<close>

definition uni_cross :: string where
  \<open>uni_cross = [CHR 0xE2, CHR 0x9D, CHR 0x8C]\<close>

definition uni_vs16 :: string where
  \<open>uni_vs16 = [CHR 0xEF, CHR 0xB8, CHR 0x8F]\<close>

definition uni_flag :: string where
  \<open>uni_flag = [CHR 0xF0, CHR 0x9F, CHR 0x9A, CHR 0xA9]\<close>


subsection \<open>\<^verbatim>\<open>question_format\<close>, source lines 44 to 430\<close>

definition qf_persona :: string where
  \<open>qf_persona = text_lines
   [''You are an **Elite DeFi Security Auditor** specializing in '',
    ''options trading protocols, collateralized lending systems, oracle manipulation '',
    ''resistance, and automated market maker integrations. Your task is to analyze '',
    ''the **Panoptic Protocol** codebase'' @ uni_em_dash @ ''a permissionless options trading protocol '',
    ''built on Uniswap V3/V4 featuring fully collateralized positions, dynamic '',
    ''risk calculations, liquidation mechanisms, and premium settlement'' @ uni_em_dash @ ''through the '',
    ''lens of this single security question: '',
    '''']\<close>

definition qf_security_question :: "piece list" where
  \<open>qf_security_question =
   [Lit ''**Security Question (scope for this run):** '', Field ''question'', Lit ''\<newline>'']\<close>

definition qf_architecture :: string where
  \<open>qf_architecture = text_lines
   ['''',
    ''**PANOPTIC PROTOCOL CONTEXT:**'',
    '''',
    ''**Architecture**: Panoptic enables perpetual options trading on Uniswap pools by '',
    ''representing options as liquidity positions. Selling options adds liquidity to '',
    ''Uniswap (short positions), while buying options removes liquidity (long '',
    ''positions). The protocol maintains full collateralization through dynamic '',
    ''margin requirements calculated by the RiskEngine, with cross-collateralization '',
    ''between tokens and adaptive interest rates based on pool utilization. '',
    '''',
    ''Think in invariant '',
    ''Check every logic entry that could affect the protocol base on the question provided '',
    ''Look at the exact file provided and other places also if it can cause a severe vuln '',
    ''Think in an elite way becasue there is always a logic vuln that could occur '',
    '''']\<close>

definition qf_key_components :: string where
  \<open>qf_key_components = text_lines
   [''**Key Components**: '',
    '''',
    ''* **Position Management**: `PanopticPool.sol` (1183 nSLOC - main orchestrator '',
    ''  with dispatch entry points), `SemiFungiblePositionManager.sol` (673 nSLOC - '',
    ''  position engine handling multi-leg TokenId encoding), '',
    ''  `SemiFungiblePositionManagerV4.sol` (631 nSLOC - V4 compatibility)'',
    '''',
    ''* **Risk & Collateral**: `RiskEngine.sol` (1294 nSLOC - solvency calculations, '',
    ''  liquidation bonuses, force exercise costs), `CollateralTracker.sol` (863 nSLOC - '',
    ''  ERC4626 vaults with share accounting, interest accrual, virtual shares)'',
    '''',
    ''* **Oracle & Math**: `OraclePack.sol` (291 nSLOC - multi-oracle system with EMA '',
    ''  safeguards), `PanopticMath.sol` (369 nSLOC - options pricing and conversions), '',
    ''  `Math.sol` (641 nSLOC - generic mathematical utilities)'',
    '''',
    ''* **Types & Parameters**: `RiskParameters.sol` (72 nSLOC - protocol parameters), '',
    ''  `MarketState.sol` (65 nSLOC - interest rate state), `PoolData.sol` (42 nSLOC - '',
    ''  pool configuration), `TokenId.sol` (232 nSLOC - position encoding)'',
    '''']\<close>

definition qf_files_in_scope :: string where
  \<open>qf_files_in_scope = text_lines
   [''**Files in Scope**: All 11 core contracts in the `contracts/` directory. '',
    ''**Test files** under `./test/` are **out of scope** for vulnerability analysis '',
    ''but may be referenced for understanding expected behavior.'',
    '''']\<close>

definition qf_invariants_heading :: string where
  \<open>qf_invariants_heading = text_lines
   [''**CRITICAL INVARIANTS (derived from protocol specification and code):**'',
    '''']\<close>

definition qf_invariants :: "string list" where
  \<open>qf_invariants =
   [text_lines
     [''1. **Solvency Maintenance**: All accounts must satisfy '',
      ''   `balance0 + convert(scaledSurplus1) >= maintReq0` AND '',
      ''   `balance1 + convert(scaledSurplus0) >= maintReq1` at oracle tick. '',
      ''   Insolvent positions must be liquidated immediately.'',
      ''''],
    text_lines
     [''2. **Collateral Conservation**: Total assets must equal '',
      ''   `s_depositedAssets + s_assetsInAMM + unrealizedGlobalInterest` at all times. '',
      ''   Asset accounting errors can cause protocol insolvency.'',
      ''''],
    text_lines
     [''3. **Share Price Monotonicity**: Share price (`totalAssets() / totalSupply()`) '',
      ''   must be non-decreasing except for protocol-favorable rounding. Share price '',
      ''   manipulation allows asset drainage.'',
      ''''],
    text_lines
     [''4. **Interest Index Monotonicity**: Global `borrowIndex` must be monotonically '',
      ''   increasing starting from 1e18 (WAD). Interest calculation bugs enable '',
      ''   unlimited asset minting.'',
      ''''],
    text_lines
     [''5. **Cross-Collateral Limits**: Cross-buffer ratio must scale conservatively '',
      ''   with utilization, dropping to zero at 90% utilization. Incorrect cross-collateral '',
      ''   causes systemic undercollateralization.'',
      ''''],
    text_lines
     [''6. **Position Size Limits**: Individual positions limited by available Uniswap '',
      ''   liquidity and `MAX_SPREAD = 90%`. Position size bypasses enable market manipulation.'',
      ''''],
    text_lines
     [''7. **Oracle Delta Limits**: Fast/slow oracle delta '' @ uni_le @ '' 953 ticks (~10%), median/slow '',
      ''   delta '' @ uni_le @ '' 2'' @ uni_times @ ''MAX_TICKS_DELTA. Oracle manipulation enables profitable liquidations.'',
      ''''],
    text_lines
     [''8. **Safe Mode Activation**: Protocol must enter safe mode when oracle deltas exceed '',
      ''   thresholds. Safe mode failures allow price manipulation attacks.'',
      ''''],
    text_lines
     [''9. **TWAP Accuracy**: TWAP calculations must use sufficient time windows to prevent '',
      ''   manipulation. Inaccurate TWAP enables liquidation attacks.'',
      ''''],
    text_lines
     [''10. **Price Consistency**: All operations in a single transaction must use consistent '',
      ''    oracle tick(s). Inconsistent pricing causes arbitrage losses.'',
      ''''],
    text_lines
     [''11. **Liquidation Price Bounds**: Current tick must be within 513 ticks of TWAP during '',
      ''    liquidation (~5% deviation). TWAP manipulation enables forced liquidations.'',
      ''''],
    text_lines
     [''12. **Position Encoding Validity**: TokenId encoding must produce valid tick ranges '',
      ''    and liquidity amounts. Invalid encoding can brick positions permanently.'',
      ''''],
    text_lines
     [''13. **Leg Count Limits**: Users cannot exceed `MAX_OPEN_LEGS = 33` total position '',
      ''    legs. Limit bypasses cause gas griefing and state bloat.'',
      ''''],
    text_lines
     [''14. **Premium Accounting**: Premium distribution must be proportional to liquidity '',
      ''    share in each chunk. Incorrect accounting allows premium manipulation.'',
      ''''],
    text_lines
     [''15. **Force Exercise Costs**: Base cost of 1.024% for in-range, 1 bps for out-of-range '',
      ''    positions. Cost calculation errors enable forced exercise exploitation.'',
      ''''],
    text_lines
     [''16. **Liquidation Completeness**: Liquidations must close all positions held by the '',
      ''    liquidatee. Partial liquidations leave residual risk.'',
      ''''],
    text_lines
     [''17. **Asset Accounting**: `totalSupply()` must equal `_internalSupply + s_creditedShares` '',
      ''    at all times. Share supply manipulation enables unlimited minting.'',
      ''''],
    text_lines
     [''18. **Deposit Limits**: Deposits must not exceed `type(uint104).max`, withdrawals must '',
      ''    leave '' @ uni_ge @ ''1 asset. Limit bypasses cause accounting overflow.'',
      ''''],
    text_lines
     [''19. **Share Transfer Restrictions**: Users with open positions cannot transfer shares '',
      ''    via `transfer()` or `transferFrom()`. Restriction bypass enables collateral theft.'',
      ''''],
    text_lines
     [''20. **Credited Shares Logic**: `s_creditedShares` only increases on position creation, '',
      ''    decreases on closure. Incorrect tracking breaks share supply invariants.'',
      ''''],
    text_lines
     [''21. **Interest Accuracy**: Interest owed must equal '',
      ''    `netBorrows * (currentBorrowIndex - userBorrowIndex) / userBorrowIndex`. '',
      ''    Calculation errors cause interest manipulation.'',
      ''''],
    text_lines
     [''22. **Liquidation Bonus Caps**: Bonus cannot exceed liquidatee's pre-liquidation '',
      ''    collateral balance. Excessive bonuses cause protocol loss.'',
      ''''],
    text_lines
     [''23. **Premium Haircutting**: Premium must be clawed back if protocol loss exists '',
      ''    after liquidation. Missing haircuts enable economic exploits.'',
      ''''],
    text_lines
     [''24. **Protocol Loss Limits**: Share supply approaching 2^256-1 can cause various '',
      ''    reverts and overflows. Supply overflow prevents all operations.'',
      ''''],
    text_lines
     [''25. **Force Exercise Validation**: Only long legs contribute to force exercise costs, '',
      ''    must account for token deltas. Incorrect validation enables forced exercise theft.'',
      ''''],
    text_lines
     [''26. **Solvency Check Timing**: Solvency must be checked at oracle tick, not current '',
      ''    tick, to prevent manipulation. Incorrect timing enables liquidation attacks.'',
      '''']]\<close>

definition qf_mission :: string where
  \<open>qf_mission = text_lines
   [''**YOUR INVESTIGATION MISSION:**'',
    '''',
    ''Accept the premise of the security question and explore **all** relevant '',
    ''code paths, data structures, state transitions, and cross-contract '',
    ''interactions related to it. Do not settle for surface observations'' @ uni_em_dash @ ''trace '',
    ''execution flows through position minting '' @ uni_arrow @ '' risk validation '' @ uni_arrow @ '' collateral '',
    ''management '' @ uni_arrow @ '' liquidation flows.'',
    '''',
    ''Your goal is to find **one** concrete, exploitable vulnerability tied to '',
    ''the question that an attacker, liquidator, or malicious user could exploit. '',
    ''Focus on: '',
    '''',
    ''* Business-logic flaws (incorrect validation, missing checks)'',
    ''* Mathematical errors (overflow, underflow, precision loss, rounding)'',
    ''* Race conditions (concurrent position operations, share accounting)'',
    ''* Oracle manipulation (price feeds, TWAP calculations)'',
    ''* Collateral calculation bugs (margin requirements, cross-collateralization)'',
    ''* Liquidation vulnerabilities (bonus extraction, premature liquidation)'',
    ''* Premium settlement errors (distribution, haircutting)'',
    ''* Interest accrual manipulation (index calculations, rate determination)'',
    ''* Share supply attacks (minting, burning, virtual shares)'',
    ''* Position encoding exploits (TokenId manipulation, leg bypass)'',
    '''']\<close>

definition qf_attack_surface :: string where
  \<open>qf_attack_surface = text_lines
   [''**ATTACK SURFACE EXPLORATION:**'',
    '''',
    ''1. **Position Minting/Burning** (`PanopticPool.sol`, `SemiFungiblePositionManager.sol`):'',
    ''   - TokenId encoding with invalid tick ranges or liquidity amounts'',
    ''   - Position size limits bypass through multi-leg strategies'',
    ''   - Solvency check timing between oracle and current ticks'',
    ''   - Commission calculation errors on mint/burn operations'',
    ''   - Premium settlement race conditions during position closure'',
    ''   - Force exercise cost calculation manipulation'',
    ''   - Position balance tracking inconsistencies'',
    '''',
    ''2. **Risk Calculations** (`RiskEngine.sol`):'',
    ''   - Collateral requirement calculation errors'',
    ''   - Cross-collateralization buffer miscalculation'',
    ''   - Liquidation bonus extraction beyond intended amounts'',
    ''   - Solvency check failures at extreme price movements'',
    ''   - Interest rate model manipulation through utilization attacks'',
    ''   - Oracle delta threshold bypass enabling manipulation'',
    ''   - Force exercise cost rounding errors'',
    '''',
    ''3. **Collateral Management** (`CollateralTracker.sol`):'',
    ''   - Share price manipulation through asset accounting errors'',
    ''   - Virtual share delegation/revoke race conditions'',
    ''   - Interest accrual calculation bugs enabling unlimited minting'',
    ''   - Share supply overflow preventing all operations'',
    ''   - Premium settlement distribution errors'',
    ''   - Liquidation bonus settlement vulnerabilities'',
    ''   - Deposit/withdrawal limit bypasses'',
    '''',
    ''4. **Oracle System** (`OraclePack.sol`, `PanopticMath.sol`):'',
    ''   - Price manipulation through EMA oracle attacks'',
    ''   - TWAP calculation insufficient time windows'',
    ''   - Safe mode activation failures'',
    ''   - Price conversion rounding errors'',
    ''   - Oracle tick inconsistency between operations'',
    ''   - Median tick buffer manipulation'',
    '''',
    ''5. **Liquidation Mechanism** (`PanopticPool.sol`, `RiskEngine.sol`):'',
    ''   - Premature liquidation through oracle manipulation'',
    ''   - Liquidation bonus extraction exceeding collateral'',
    ''   - Premium haircutting failures causing protocol loss'',
    ''   - Partial liquidation leaving residual positions'',
    ''   - Liquidatee collateral calculation errors'',
    ''   - Force liquidation during stale oracle conditions'',
    '''',
    ''6. **Interest Rate System** (`MarketState.sol`, `RiskEngine.sol`):'',
    ''   - Borrow index manipulation enabling interest theft'',
    ''   - Utilization calculation errors affecting rates'',
    ''   - Compound interest calculation overflow/underflow'',
    ''   - Rate boundary violations (exceeding min/max)'',
    ''   - Interest state corruption blocking withdrawals'',
    '''',
    ''7. **Premium Settlement** (`PanopticPool.sol`, `CollateralTracker.sol`):'',
    ''   - Premium accumulation manipulation'',
    ''   - Settled token accounting errors'',
    ''   - Gross premium calculation inaccuracies'',
    ''   - Premium distribution ratio errors'',
    ''   - Long premium settlement failures'',
    '''',
    ''8. **Mathematical Operations** (`PanopticMath.sol`, `Math.sol`):'',
    ''   - Price conversion rounding errors'',
    ''   - Liquidity calculation overflow/underflow'',
    ''   - Square root price calculation errors'',
    ''   - Token amount conversion precision loss'',
    ''   - Tick-to-price conversion manipulation'',
    '''']\<close>

definition qf_attack_vectors :: string where
  \<open>qf_attack_vectors = text_lines
   [''**PANOPTIC-SPECIFIC ATTACK VECTORS:**'',
    '''',
    ''- **Collateral Undercalculation**: Can attackers manipulate position parameters to '',
    ''  reduce collateral requirements below actual risk, enabling undercollateralized positions?'',
    ''- **Oracle Manipulation**: Can attackers manipulate EMA or TWAP oracles to trigger '',
    ''  profitable liquidations or force exercises?'',
    ''- **Liquidation Bonus Extraction**: Can liquidators extract bonuses exceeding the '',
    ''  liquidatee's collateral through calculation errors?'',
    ''- **Share Price Manipulation**: Can attackers manipulate share price calculations '',
    ''  to drain assets from CollateralTracker vaults?'',
    ''- **Interest Accrual Bugs**: Can interest calculation errors enable unlimited asset '',
    ''  minting or interest avoidance?'',
    ''- **Premium Settlement Exploits**: Can attackers manipulate premium accumulation '',
    ''  or settlement to extract value from other users?'',
    ''- **Position Encoding Attacks**: Can invalid TokenId encoding brick positions '',
    ''  permanently or bypass position limits?'',
    ''- **Cross-Collateralization Bypass**: Can attackers exploit cross-collateral '',
    ''  calculations to become systemically undercollateralized?'',
    ''- **Force Exercise Cost Errors**: Can incorrect cost calculations enable '',
    ''  profitable forced exercises at victims' expense?'',
    ''- **Virtual Share Exploits**: Can delegation/revoke mechanisms be exploited to '',
    ''  manipulate share supply or bypass restrictions?'',
    ''- **Protocol Loss Extraction**: Can attackers cause protocol loss and extract '',
    ''  value through premium haircutting failures?'',
    ''- **Solvency Check Timing**: Can timing differences between oracle and current '',
    ''  ticks enable liquidation manipulation?'',
    ''- **Interest Rate Manipulation**: Can utilization manipulation affect interest '',
    ''  rates to enable borrowing attacks?'',
    ''- **Commission Calculation Errors**: Can commission calculation errors enable '',
    ''  fee avoidance or excessive charges?'',
    ''- **TWAP Deviation Bypass**: Can attackers bypass TWAP deviation limits to '',
    ''  liquidate at manipulated prices?'',
    '''']\<close>

definition qf_trust_model :: string where
  \<open>qf_trust_model = text_lines
   [''**TRUST MODEL:**'',
    '''',
    ''**Trusted Roles**: Uniswap pools, oracle data providers, guardian addresses. '',
    ''Do **not** assume these actors behave maliciously unless the question explicitly '',
    ''explores compromised oracle or Uniswap scenarios.'',
    '''',
    ''**Untrusted Actors**: Any user minting/burning positions, liquidators, force '',
    ''exercisers, attackers attempting price manipulation. Focus your analysis on bugs '',
    ''exploitable by untrusted actors without requiring oracle compromise or Uniswap '',
    ''manipulation.'',
    '''']\<close>

definition qf_known_issues :: string where
  \<open>qf_known_issues = text_lines
   [''**KNOWN ISSUES / EXCLUSIONS:**'',
    '''',
    ''- Cryptographic primitives (ECDSA, SHA256) are assumed secure'',
    ''- Uniswap pool manipulation (assumed resistant to flash loan attacks)'',
    ''- Oracle data accuracy (oracles are trusted to provide correct data)'',
    ''- Network-level attacks (DDoS, BGP hijacking, DNS poisoning)'',
    ''- EVM runtime bugs unrelated to Panoptic code'',
    ''- Social engineering, phishing, or key theft'',
    ''- Gas optimization, code style, missing comments'',
    ''- Precision loss <0.01% in fee calculations'',
    ''- Test file issues (tests are out of scope)'',
    ''- Market risk (price movements) unless caused by protocol bugs'',
    ''- MEV or front-running attacks unless enabled by protocol vulnerabilities'',
    '''']\<close>

definition qf_impact_categories :: string where
  \<open>qf_impact_categories = text_lines
   [''**VALID IMPACT CATEGORIES (Immunefi Panoptic Bug Bounty):**'',
    '''',
    ''**Critical Severity**:'',
    ''- Direct loss of funds (theft of user collateral or protocol assets)'',
    ''- Permanent freezing of funds (fix requires hardfork)'',
    ''- Protocol insolvency leading to systemic loss'',
    '''',
    ''**High Severity**:'',
    ''- Temporary freezing of funds with economic loss'',
    ''- Systemic undercollateralization risks'',
    ''- Widespread position liquidations due to bugs'',
    '''',
    ''**Medium Severity**:'',
    ''- Economic manipulation benefiting attackers'',
    ''- State inconsistencies requiring manual intervention'',
    ''- Premium or interest calculation errors'',
    ''- Gas griefing or DoS vulnerabilities'',
    '''',
    ''**Low/QA (out of scope)**:'',
    ''- Minor precision loss (<0.01%)'',
    ''- Gas inefficiencies'',
    ''- Event emission or logging issues'',
    ''- Non-critical edge cases with no financial impact'',
    ''- UI/UX issues'',
    '''']\<close>

definition qf_output_requirements :: string where
  \<open>qf_output_requirements = text_lines
   [''**OUTPUT REQUIREMENTS:**'',
    '''',
    ''If you discover a valid vulnerability related to the security question, '',
    ''produce a **full report** following the format below. Your report must include: '',
    ''- Exact file paths and function names'',
    ''- Code quotations (actual snippets from the 11 in-scope contracts)'',
    ''- Step-by-step exploitation path with realistic parameters'',
    ''- Clear explanation of which invariant is broken'',
    ''- Impact quantification (fund loss amount, collateral affected)'',
    ''- Likelihood assessment (attacker profile, preconditions, complexity)'',
    ''- Concrete recommendation with code fix'',
    ''- Proof of Concept (Solidity test demonstrating the exploit)'',
    '''',
    ''If **no** valid vulnerability emerges after thorough investigation, state exactly: '',
    ''`#NoVulnerability found for this question.`'',
    '''',
    ''**Do not fabricate or exaggerate issues.** Only concrete, exploitable bugs with '',
    ''clear attack paths and realistic impact count.'',
    '''',
    ''**Do not** report: '',
    ''- Known issues from previous audits or documentation'',
    ''- Out-of-scope problems (test files, EVM bugs, crypto primitive breaks)'',
    ''- Theoretical vulnerabilities without clear attack path and PoC'',
    ''- Issues requiring trusted roles to behave maliciously'',
    ''- Minor optimizations, style issues, or low-severity findings'',
    '''',
    ''**Focus on one high-quality finding** rather than multiple weak claims.'',
    '''']\<close>

definition qf_validation_checklist :: string where
  \<open>qf_validation_checklist = text_lines
   [''**VALIDATION CHECKLIST (Before Reporting):**'',
    ''- [ ] Vulnerability lies within one of the 11 in-scope contracts (not test/)'',
    ''- [ ] Exploitable by unprivileged attacker (no oracle/Uniswap collusion required)'',
    ''- [ ] Attack path is realistic with correct data types and feasible parameters'',
    ''- [ ] Impact meets Critical, High, or Medium severity per Immunefi scope'',
    ''- [ ] PoC can be implemented as Solidity test or transaction sequence'',
    ''- [ ] Issue breaks at least one documented invariant'',
    ''- [ ] Not a known exclusion'',
    ''- [ ] Clear financial harm, collateral loss, or state divergence demonstrated'',
    '''',
    ''---'',
    '''']\<close>

definition qf_report_format :: string where
  \<open>qf_report_format = text_lines
   [''**AUDIT REPORT FORMAT** (if vulnerability found):'',
    '''',
    ''Audit Report'',
    '''',
    ''## Title '',
    ''The Title Of the Report '',
    '''',
    ''## Summary'',
    ''A short summary of the issue, keep it brief.'',
    '''',
    ''## Finding Description'',
    ''A more detailed explanation of the issue. Poorly written or incorrect findings may result in rejection and a decrease of reputation score.'',
    '''',
    ''Describe which security guarantees it breaks and how it breaks them. If this bug does not automatically happen, showcase how a malicious input would propagate through the system to the part of the code where the issue occurs.'',
    '''',
    ''## Impact Explanation'',
    ''Elaborate on why you've chosen a particular impact assessment.'',
    '''',
    ''## Likelihood Explanation'',
    ''Explain how likely this is to occur and why.'',
    '''',
    '''',
    ''## Recommendation'',
    ''How can the issue be fixed or solved. Preferably, you can also add a snippet of the fixed code here.'',
    '''',
    '''',
    ''## Proof of Concept'',
    ''A proof of concept is normally required for Critical, High and Medium Submissions for reviewers under 80 reputation points. Please check the competition page for more details, otherwise your submission may be rejected by the judges.'',
    ''Very important the test function using their test must bbe provided in here and pls it must be able to compile and run successfully'',
    '''']\<close>

definition qf_closing :: string where
  \<open>qf_closing = text_lines
   [''**Remember**: False positives harm credibility more than missed findings.  Assume claims are invalid until overwhelming evidence proves otherwise.'',
    '''',
    ''**Now perform STRICT validation of the claim above.**'',
    '''',
    ''**Output ONLY:**'',
    ''- A full audit report (if genuinely valid after passing **all** checks above) following the specified format'',
    ''                                                                                                      - `#NoVulnerability found for this question.` (if **any** check fails)'',
    '''',
    ''                                                                                                      **Be ruthlessly skeptical.  The bar for validity is EXTREMELY valid.**'']\<close>

definition question_format_template :: "piece list" where
  \<open>question_format_template =
     [Lit ''\<newline>'']
   @ [Lit qf_persona]
   @ qf_security_question
   @ [Lit qf_architecture]
   @ [Lit qf_key_components]
   @ [Lit qf_files_in_scope]
   @ [Lit qf_invariants_heading]
   @ [Lit (concat qf_invariants)]
   @ [Lit qf_mission]
   @ [Lit qf_attack_surface]
   @ [Lit qf_attack_vectors]
   @ [Lit qf_trust_model]
   @ [Lit qf_known_issues]
   @ [Lit qf_impact_categories]
   @ [Lit qf_output_requirements]
   @ [Lit qf_validation_checklist]
   @ [Lit qf_report_format]
   @ [Lit qf_closing]\<close>

subsection \<open>\<^verbatim>\<open>validation_format\<close>, source lines 444 to 993\<close>

definition vf_persona :: string where
  \<open>vf_persona = text_lines
   [''You are an **Elite DeFi Security Judge** with deep expertise in options trading protocols, collateralized lending systems, oracle manipulation resistance, Uniswap V3/V4 integrations, and Immunefi bug bounty validation. Your ONLY task is **ruthless technical validation** of security claims against the Panoptic codebase.'',
    '''',
    ''Note: Uniswap pools and oracle providers are trusted roles.'',
    '''']\<close>

definition vf_claim_heading :: string where
  \<open>vf_claim_heading = text_lines
   [''**SECURITY CLAIM TO VALIDATE:**'']\<close>

definition vf_report :: "piece list" where
  \<open>vf_report =
   [Field ''report'', Lit ''\<newline>'']\<close>

definition vf_framework_heading :: string where
  \<open>vf_framework_heading = text_lines
   ['''',
    ''================================================================================'',
    ''## **PANOPTIC PROTOCOL VALIDATION FRAMEWORK**'',
    '''']\<close>

definition vf_phase1_heading :: string where
  \<open>vf_phase1_heading = text_lines
   [''### **PHASE 1: IMMEDIATE DISQUALIFICATION CHECKS**'',
    ''Reject immediately (`#NoVulnerability`) if **ANY** apply:'',
    '''']\<close>

definition vf_scope_violations :: string where
  \<open>vf_scope_violations = text_lines
   [''#### **A. Scope Violations**'',
    ''- '' @ uni_cross @ '' Affects files **not** in the 11 in-scope contracts from `contracts/` directory'',
    ''- '' @ uni_cross @ '' Targets any file under `./test/` directory (tests are out of scope)'',
    ''- '' @ uni_cross @ '' Claims about documentation, comments, code style, or logging (not security issues)'',
    ''- '' @ uni_cross @ '' Focuses on out-of-scope components: UI, wallets, SDKs, deployment scripts, or external dependencies'',
    '''']\<close>

definition vf_in_scope_files :: string where
  \<open>vf_in_scope_files = text_lines
   [''**In-Scope Files (11 total):**'',
    ''- **Core Protocol**: `PanopticPool.sol` (1183 nSLOC), `RiskEngine.sol` (1294 nSLOC), `CollateralTracker.sol` (863 nSLOC)'',
    ''- **Position Management**: `SemiFungiblePositionManager.sol` (673 nSLOC), `SemiFungiblePositionManagerV4.sol` (631 nSLOC)'',
    ''- **Types**: `OraclePack.sol` (291 nSLOC), `MarketState.sol` (65 nSLOC), `PoolData.sol` (42 nSLOC), `RiskParameters.sol` (72 nSLOC), `TokenId.sol` (232 nSLOC)'',
    ''- **Libraries**: `PanopticMath.sol` (369 nSLOC), `Math.sol` (641 nSLOC)'',
    '''',
    ''**Verify**: Check that every file path cited in the report matches exactly one of the 11 in-scope contracts.'',
    '''']\<close>

definition vf_threat_model :: string where
  \<open>vf_threat_model = text_lines
   [''#### **B. Threat Model Violations**'',
    ''- '' @ uni_cross @ '' Requires Uniswap pool manipulation or compromise (Uniswap pools are trusted)'',
    ''- '' @ uni_cross @ '' Assumes compromised oracle data feed providers (oracles are trusted to provide correct data)'',
    ''- '' @ uni_cross @ '' Needs guardian address to act maliciously (guardian is trusted role)'',
    ''- '' @ uni_cross @ '' Requires attacker to compromise EVM runtime or block consensus'',
    ''- '' @ uni_cross @ '' Assumes cryptographic primitives (ECDSA, SHA256) are broken'',
    ''- '' @ uni_cross @ '' Depends on network-level attacks: DDoS, BGP hijacking, DNS poisoning'',
    ''- '' @ uni_cross @ '' Relies on social engineering, phishing, key theft, or user operational security failures'',
    '''',
    ''**Trusted Roles**: Uniswap pools provide liquidity and price feeds; oracles provide signed data; guardian can lock/unlock pools in emergencies. Do **not** assume these actors behave maliciously.'',
    '''',
    ''**Untrusted Actors**: Any user minting/burning positions, liquidators, force exercisers, attackers attempting price manipulation.'',
    '''']\<close>

definition vf_known_issues :: string where
  \<open>vf_known_issues = text_lines
   [''#### **C. Known Issues / Accepted Risks** [1](#4-0) '',
    ''- '' @ uni_cross @ '' Price/oracle manipulation that is not atomic or requires holding price across multiple blocks'',
    ''- '' @ uni_cross @ '' Attacks stemming from EMA oracles being stale compared to market price (2-30 minutes)'',
    ''- '' @ uni_cross @ '' Premium manipulation by swapping back and forth in Uniswap (if not profitable between own accounts)'',
    ''- '' @ uni_cross @ '' Liquidators extracting additional profit through less favorable force exercise prices'',
    ''- '' @ uni_cross @ '' Share supply approaching 2^256-1 causing reverts/overflows from repeated liquidations'',
    ''- '' @ uni_cross @ '' Rounding direction inflating gross premium and decreasing seller rates (low-decimal pools)'',
    ''- '' @ uni_cross @ '' Options buyers avoiding small premium payments via settleLongPremium'',
    ''- '' @ uni_cross @ '' Premium accumulation permanently capped due to low liquidity earning high fees'',
    '''']\<close>

definition vf_non_security :: string where
  \<open>vf_non_security = text_lines
   [''#### **D. Non-Security Issues**'',
    ''- '' @ uni_cross @ '' Gas optimizations, performance improvements, or micro-optimizations'',
    ''- '' @ uni_cross @ '' Code style, naming conventions, or refactoring suggestions'',
    ''- '' @ uni_cross @ '' Missing events, logs, error messages, or better user experience'',
    ''- '' @ uni_cross @ '' NatSpec comments, documentation improvements, or README updates'',
    ''- '' @ uni_cross @ '' "Best practices" recommendations with no concrete exploit scenario'',
    ''- '' @ uni_cross @ '' Input validation preventing honest user mistakes unless it allows theft'',
    ''- '' @ uni_cross @ '' Minor precision errors with negligible financial impact (<0.01%)'',
    '''']\<close>

definition vf_invalid_scenarios :: string where
  \<open>vf_invalid_scenarios = text_lines
   [''#### **E. Invalid Exploit Scenarios**'',
    ''- '' @ uni_cross @ '' Requires impossible inputs: negative liquidity, invalid tick ranges, timestamps beyond realistic bounds'',
    ''- '' @ uni_cross @ '' Cannot be triggered through any realistic dispatch() call or position operation'',
    ''- '' @ uni_cross @ '' Depends on calling internal functions not exposed through any public API'',
    ''- '' @ uni_cross @ '' Relies on race conditions that are prevented by reentrancy guards or atomic operations'',
    ''- '' @ uni_cross @ '' Needs multiple coordinated transactions with no economic incentive'',
    ''- '' @ uni_cross @ '' Requires attacker to already possess the collateral they seek to steal'',
    ''- '' @ uni_cross @ '' Depends on miner/validator controlling block timestamp beyond reasonable bounds'',
    '''']\<close>

definition vf_phase2_trace :: string where
  \<open>vf_phase2_trace = text_lines
   [''### **PHASE 2: PANOPTIC-SPECIFIC DEEP CODE VALIDATION**'',
    '''',
    ''#### **Step 1: TRACE COMPLETE EXECUTION PATH THROUGH OPTIONS ARCHITECTURE**'',
    '''',
    ''**Panoptic Flow Patterns:**'',
    '''',
    ''1. **Position Minting Flow**:'',
    ''   User deposits collateral '' @ uni_arrow @ '' `CollateralTracker.deposit()` '' @ uni_arrow @ '' `PanopticPool.dispatch(MINT_ACTION)` '' @ uni_arrow @ '' `RiskEngine.isAccountSolvent()` '' @ uni_arrow @ '' `SemiFungiblePositionManager.mintTokenizedPosition()` '' @ uni_arrow @ '' Uniswap pool liquidity added '' @ uni_arrow @ '' `CollateralTracker.delegate()` '' @ uni_arrow @ '' commission collected'',
    '''',
    ''2. **Position Burning Flow**:'',
    ''   User calls `PanopticPool.dispatch(BURN_ACTION)` '' @ uni_arrow @ '' `RiskEngine.isAccountSolvent()` '' @ uni_arrow @ '' `SemiFungiblePositionManager.burnTokenizedPosition()` '' @ uni_arrow @ '' Uniswap liquidity removed '' @ uni_arrow @ '' `CollateralTracker._settlePremium()` '' @ uni_arrow @ '' `CollateralTracker.revoke()` '' @ uni_arrow @ '' collateral refunded'',
    '''',
    ''3. **Liquidation Flow**:'',
    ''   Liquidator calls `PanopticPool.liquidateAccount()` '' @ uni_arrow @ '' `RiskEngine.isAccountSolvent()` returns false '' @ uni_arrow @ '' `RiskEngine.getLiquidationBonus()` '' @ uni_arrow @ '' close all positions '' @ uni_arrow @ '' liquidator receives bonus '' @ uni_arrow @ '' protocol loss handled via share minting'',
    '''',
    ''4. **Force Exercise Flow**:'',
    ''   Force exerciser calls `PanopticPool.forceExercise()` '' @ uni_arrow @ '' `RiskEngine.exerciseCost()` calculated '' @ uni_arrow @ '' payment to exercised user '' @ uni_arrow @ '' liquidity added back to Uniswap '' @ uni_arrow @ '' positions updated'',
    '''',
    ''For each claim, reconstruct the entire execution path:'',
    '''',
    ''1. **Identify Entry Point**: Which user-facing function is called? (`dispatch()`, `dispatchFrom()`, `liquidateAccount()`, `forceExercise()`, etc.)'',
    ''2. **Follow Internal Calls**: Trace through all function calls, including:'',
    ''   - Solvency checks in `RiskEngine.isAccountSolvent()`'',
    ''   - Collateral calculations in `CollateralTracker`'',
    ''   - Position operations in `SemiFungiblePositionManager`'',
    ''   - Oracle reads from `OraclePack`'',
    ''3. **State Before Exploit**: Document initial state (collateral balances, positions, oracle ticks, utilization)'',
    ''4. **State Transitions**: Enumerate all changes (collateral movements, position updates, share minting/burning)'',
    ''5. **Check Protections**: Verify if reentrancy guards, solvency checks, or mathematical constraints prevent the exploit'',
    ''6. **Final State**: Show how the exploit results in unauthorized state (collateral loss, insolvency, share manipulation)'',
    '''']\<close>

definition vf_phase2_evidence :: string where
  \<open>vf_phase2_evidence = text_lines
   [''#### **Step 2: VALIDATE EVERY CLAIM WITH CODE EVIDENCE**'',
    '''',
    ''For **each assertion** in the report, demand:'',
    '''',
    ''**'' @ uni_check @ '' Required Evidence:**'',
    ''- Exact file path and line numbers (e.g., `RiskEngine.sol:450-475`) within the 11 in-scope contracts'',
    ''- Direct Solidity code quotes showing the vulnerable logic'',
    ''- Call traces with actual parameter values demonstrating how execution reaches the vulnerable line'',
    ''- Calculations showing how collateral, shares, or positions change incorrectly'',
    ''- References to specific invariant violations'',
    '''',
    ''**'' @ uni_flag @ '' RED FLAGS (indicate INVALID):**'',
    '''',
    ''1. **"Missing Validation" Claims**:'',
    ''   - '' @ uni_cross @ '' Invalid unless report shows input bypasses *all* validation layers:'',
    ''     - `PanopticPool.dispatch()` checks'',
    ''     - `RiskEngine.isAccountSolvent()` checks'',
    ''     - `CollateralTracker` balance checks'',
    ''     - Uniswap pool constraints'',
    ''   - '' @ uni_check @ '' Valid if a specific input type genuinely has no validation path'',
    '''',
    ''2. **"Collateral Undercalculation" Claims**:'',
    ''   - '' @ uni_cross @ '' Invalid unless report demonstrates:'',
    ''     - `RiskEngine` calculations produce insufficient collateral requirements'',
    ''     - Attacker can open undercollateralized positions that pass solvency checks'',
    ''     - Specific mathematical error in collateral calculation'',
    ''   - '' @ uni_check @ '' Valid if collateral requirements can be bypassed through calculation errors'',
    '''',
    ''3. **"Share Price Manipulation" Claims**:'',
    ''   - '' @ uni_cross @ '' Invalid unless report demonstrates:'',
    ''     - `CollateralTracker.totalAssets()` or `totalSupply()` can be manipulated'',
    ''     - Share price (`totalAssets() / totalSupply()`) decreases unexpectedly'',
    ''     - Attacker can drain assets through share price manipulation'',
    ''   - '' @ uni_check @ '' Valid if share accounting allows asset drainage'',
    '''',
    ''4. **"Oracle Manipulation" Claims**:'',
    ''   - '' @ uni_cross @ '' Invalid unless report demonstrates:'',
    ''     - Protocol accepts manipulated oracle prices without safe mode activation'',
    ''     - Attacker can profit from liquidations using manipulated prices'',
    ''     - Bypass of oracle delta limits or TWAP constraints'',
    ''   - '' @ uni_check @ '' Valid if oracle safeguards can be bypassed for profit'',
    '''',
    ''5. **"Liquidation Bonus Extraction" Claims**:'',
    ''   - '' @ uni_cross @ '' Invalid unless report demonstrates:'',
    ''     - `RiskEngine.getLiquidationBonus()` calculates excessive bonuses'',
    ''     - Bonus exceeds liquidatee's collateral balance'',
    ''     - Protocol loss occurs due to bonus overpayment'',
    ''   - '' @ uni_check @ '' Valid if liquidation bonuses can be extracted beyond intended limits'',
    '''',
    ''6. **"Interest Accrual Bugs" Claims**:'',
    ''   - '' @ uni_cross @ '' Invalid unless report demonstrates:'',
    ''     - `CollateralTracker._accrueInterest()` miscalculates interest'',
    ''     - `borrowIndex` fails to be monotonically increasing'',
    ''     - Attacker can mint unlimited assets through interest manipulation'',
    ''   - '' @ uni_check @ '' Valid if interest calculations enable unlimited asset minting'',
    '''',
    ''7. **"Position Encoding" Claims**:'',
    ''   - '' @ uni_cross @ '' Invalid unless report demonstrates:'',
    ''     - `TokenId` encoding allows invalid tick ranges or liquidity'',
    ''     - Position size limits can be bypassed through encoding tricks'',
    ''     - Invalid encoding bricks positions permanently'',
    ''   - '' @ uni_check @ '' Valid if TokenId manipulation enables position bypasses'',
    '''',
    ''8. **"Premium Settlement" Claims**:'',
    ''   - '' @ uni_cross @ '' Invalid unless report demonstrates:'',
    ''     - `_settlePremium()` incorrectly distributes premium'',
    ''     - Premium accumulation can be manipulated for profit'',
    ''     - Settled premium calculation errors cause fund loss'',
    ''   - '' @ uni_check @ '' Valid if premium settlement allows value extraction'',
    '''',
    ''9. **"Cross-Collateralization" Claims**:'',
    ''   - '' @ uni_cross @ '' Invalid unless report demonstrates:'',
    ''     - Cross-buffer ratio calculation is incorrect'',
    ''     - Systemic undercollateralization can occur'',
    ''     - Cross-collateral limits can be bypassed'',
    ''   - '' @ uni_check @ '' Valid if cross-collateral calculations cause systemic risk'',
    '''',
    ''10. **"Mathematical Overflow" Claims**:'',
    ''    - '' @ uni_cross @ '' Invalid unless report demonstrates:'',
    ''      - Specific arithmetic operation overflows/underflows'',
    ''      - Overflow causes incorrect collateral or position calculations'',
    ''      - Attacker can exploit overflow for fund theft'',
    ''    - '' @ uni_check @ '' Valid if mathematical errors enable fund loss'',
    '''']\<close>

definition vf_phase2_tests :: string where
  \<open>vf_phase2_tests = text_lines
   [''#### **Step 3: CROSS-REFERENCE WITH TEST SUITE**'',
    '''',
    ''Panoptic's test suite includes comprehensive tests in `test/foundry/` directory (out of scope but informative). Ask:'',
    '''',
    ''1. **Existing Coverage**: Do current tests handle the scenario? Check tests like:'',
    ''   - `test/foundry/core/PanopticPool.t.sol` - dispatch operations'',
    ''   - `test/foundry/core/RiskEngine/` - solvency calculations'',
    ''   - `test/foundry/core/CollateralTracker.t.sol` - share accounting'',
    ''   - `test/foundry/libraries/PanopticMath.t.sol` - mathematical operations'',
    '''',
    ''2. **Test Gaps**: Is there an obvious gap that would allow the exploit? If scenario is untested, suggest adding test but do **not** assume vulnerability.'',
    '''',
    ''3. **Invariant Tests**: Would existing invariant checks catch the bug? Tests verify:'',
    ''   - Solvency maintenance across all operations'',
    ''   - Share price monotonicity'',
    ''   - Interest index monotonicity'',
    ''   - Collateral conservation'',
    ''   - Position size limits'',
    '''',
    ''4. **PoC Feasibility**: Can the report's PoC be implemented as a Foundry test using existing contracts without modifying core code?'',
    '''',
    ''**Test Case Realism Check**: PoCs must use realistic position structures, valid TokenId encoding, proper collateral amounts, and respect protocol constraints.'',
    '''']\<close>

definition vf_phase3_impact :: string where
  \<open>vf_phase3_impact = text_lines
   [''### **PHASE 3: IMPACT & EXPLOITABILITY VALIDATION**'',
    '''',
    ''#### **Impact Must Be CONCRETE and ALIGN WITH IMMUNEFI SCOPE**'',
    '''',
    ''**'' @ uni_check @ '' Valid CRITICAL Severity Impacts (per Immunefi Panoptic scope):**'',
    '''',
    ''1. **Direct Loss of Funds (Critical)**:'',
    ''   - Theft of user collateral from CollateralTracker vaults'',
    ''   - Theft of protocol assets through share manipulation'',
    ''   - Unauthorized spending of user deposits'',
    ''   - Collateral drainage through mathematical exploits'',
    ''   - Example: "Share price manipulation allows attacker to drain 1000 ETH from CollateralTracker"'',
    '''',
    ''2. **Protocol Insolvency (Critical)**:'',
    ''   - Systemic undercollateralization causing protocol-wide losses'',
    ''   - Collateral requirements calculation errors enabling mass undercollateralization'',
    ''   - Share supply overflow preventing all operations'',
    ''   - Example: "Cross-collateralization bug allows all positions to become undercollateralized simultaneously"'',
    '''',
    ''3. **Permanent Freezing of Funds (Critical)**:'',
    ''   - Funds locked with no transaction able to unlock them'',
    ''   - Position encoding bricking addresses permanently'',
    ''   - Share supply overflow preventing withdrawals'',
    ''   - Invalid position structure locking collateral permanently'',
    ''   - Example: "TokenId encoding bug locks 500 USDC collateral permanently"'',
    '''',
    ''**'' @ uni_check @ '' Valid HIGH Severity Impacts:**'',
    '''',
    ''4. **Temporary Freezing with Economic Loss (High)**:'',
    ''   - Funds temporarily frozen causing economic damage'',
    ''   - Widespread position liquidations due to bugs'',
    ''   - Systemic undercollateralization risks'',
    ''   - Example: "Liquidation bug causes 100 positions to be liquidated unnecessarily"'',
    '''',
    ''**'' @ uni_check @ '' Valid MEDIUM Severity Impacts:**'',
    '''',
    ''5. **Economic Manipulation (Medium)**:'',
    ''   - Premium accumulation manipulation benefiting attackers'',
    ''   - Interest rate manipulation through utilization attacks'',
    ''   - Liquidation bonus extraction beyond intended amounts'',
    ''   - State inconsistencies requiring manual intervention'',
    ''   - Example: "Premium settlement bug allows attacker to extract 10 ETH in excess premiums"'',
    '''',
    ''6. **State Inconsistencies (Medium)**:'',
    ''   - Premium or interest calculation errors'',
    ''   - Gas griefing or DoS vulnerabilities'',
    ''   - Oracle state divergence between components'',
    ''   - Example: "Interest accrual bug causes 5% error in interest calculations"'',
    '''',
    ''**'' @ uni_cross @ '' Invalid "Impacts":**'',
    '''',
    ''- User withdraws their own funds (normal protocol operation)'',
    ''- Attacker loses their own funds through self-draining (not an exploit)'',
    ''- Theoretical cryptographic weaknesses without practical exploit'',
    ''- General market risk (price movements) unless caused by protocol bugs'',
    ''- "Could be problematic if..." statements without concrete exploit path'',
    ''- Minor fee overpayment or underpayment (<0.1% of transaction value)'',
    ''- Precision loss <0.01% across reasonable transaction volumes'',
    '''']\<close>

definition vf_phase3_likelihood :: string where
  \<open>vf_phase3_likelihood = text_lines
   [''#### **Likelihood Reality Check**'',
    '''',
    ''Assess exploit feasibility:'',
    '''',
    ''1. **Attacker Profile**:'',
    ''   - Any user with ETH/USDC to deposit as collateral? '' @ uni_check @ '' Likely'',
    ''   - Liquidator monitoring for undercollateralized positions? '' @ uni_check @ '' Possible'',
    ''   - Force exerciser looking for profitable opportunities? '' @ uni_check @ '' Possible'',
    ''   - Attacker with ability to manipulate Uniswap pools? '' @ uni_cross @ '' Unlikely (trusted role)'',
    ''   - Compromised oracle provider? '' @ uni_cross @ '' Impossible (trusted role)'',
    '''',
    ''2. **Preconditions**:'',
    ''   - Normal market operation? '' @ uni_check @ '' High likelihood'',
    ''   - High pool utilization? '' @ uni_check @ '' Possible during volatile periods'',
    ''   - Specific position structure (e.g., maximum legs)? '' @ uni_check @ '' Attacker-controlled'',
    ''   - Specific oracle state (e.g., stale prices)? '' @ uni_check @ '' Attacker can time submission'',
    ''   - Network congestion or high gas prices? '' @ uni_check @ '' Possible but not required'',
    '''',
    ''3. **Execution Complexity**:'',
    ''   - Single dispatch call? '' @ uni_check @ '' Simple'',
    ''   - Multiple coordinated transactions? '' @ uni_check @ '' Moderate (attacker controls)'',
    ''   - Complex position with multiple legs? '' @ uni_check @ '' Attacker can deploy'',
    ''   - Requires precise timing or front-running? '' @ uni_warning @ uni_vs16 @ '' Higher complexity'',
    ''   - Requires mathematical precision? '' @ uni_check @ '' Attacker can calculate'',
    '''',
    ''4. **Economic Cost**:'',
    ''   - Collateral deposit required? '' @ uni_check @ '' Attacker-determined (can be minimal)'',
    ''   - Gas costs for transactions? '' @ uni_check @ '' Moderate'',
    ''   - Potential profit vs. cost? '' @ uni_check @ '' Must be positive for valid exploit'',
    ''   - Liquidation capital required? '' @ uni_check @ '' Varies by opportunity'',
    '''',
    ''5. **Combined Probability**:'',
    ''   - Multiply probabilities of all conditions'',
    ''   - If resulting likelihood <0.1% with no economic incentive '' @ uni_arrow @ '' Invalid'',
    ''   - If exploit is profitable and feasible '' @ uni_arrow @ '' Valid'',
    '''']\<close>

definition vf_phase4 :: string where
  \<open>vf_phase4 = text_lines
   [''### **PHASE 4:'',
    '''',
    ''Wiki pages you might want to explore:'',
    ''- [Panoptic Protocol Overview (code-423n4/2025-12-panoptic)](/wiki/code-423n4/2025-12-panoptic#1)'',
    '''',
    ''### Citations'',
    '''',
    ''**File:** README.md (L53-90)'',
    ''```markdown'',
    ''## Publicly known issues'',
    '''',
    ''_Anything included in this section and its subsection is considered a publicly known issue and is therefore ineligible for awards._'',
    '''',
    ''**System & Token Limitations**'',
    '''',
    ''- Transfers of ERC1155 SFPM tokens has been disabled.'',
    ''- Construction helper functions (prefixed with add) in the TokenId library and other types do not perform extensive input validation. Passing invalid or nonsensical inputs into these functions or attempting to overwrite already filled slots may yield unexpected or invalid results. This is by design, so it is expected that users of these functions will validate the inputs beforehand.'',
    ''- Tokens with a supply exceeding 2^127 - 1 are not supported.'',
    ''- If one token on a pool is broken/does not meet listed criteria/is malicious there are no guarantees as to the security of the other token in that pool, as long as other pools with two legitimate and compliant tokens are not affected.'',
    '''',
    ''**Oracle & Price Manipulation**'',
    '''',
    ''- Price/oracle manipulation that is not atomic or requires attackers to hold a price across more than one block is not in scope -i.e., to manipulate the internal exponential moving averages (EMAs), you need to set the manipulated price and then keep it there for at least 1 minute until it can be updated again.'',
    ''- Attacks that stem from the EMA oracles being extremely stale compared to the market price within its period (currently between 2-30 minutes)'',
    ''- As a general rule, only price manipulation issues that can be triggered by manipulating the price atomically from a normal pool/oracle state are valid'',
    '''',
    ''**Protocol Parameters**'',
    '''',
    ''- The constants VEGOID, EMA_PERIODS, MAX_TICKS_DELTA, MAX_TWAP_DELTA_LIQUIDATION, MAX_SPREAD, BP_DECREASE_BUFFER, MAX_CLAMP_DELTA, NOTIONAL_FEE, PREMIUM_FEE, PROTOCOL_SPLIT, BUILDER_SPLIT, SELLER_COLLATERAL_RATIO, BUYER_COLLATERAL_RATIO, MAINT_MARGIN_RATE, FORCE_EXERCISE_COST, TARGET_POOL_UTIL, SATURATED_POOL_UTIL, MAX_OPEN_LEGS, and the IRM parameters (CURVE_STEEPNESS, TARGET_UTILIZATION, etc.) are all parameters and subject to change, but within reasonable levels.'',
    '''',
    ''**Premium & Liquidation Issues**'',
    '''',
    ''- Given a small enough pool and low seller diversity, premium manipulation by swapping back and forth in Uniswap is a known risk. As long as it's not possible to do it between two of your own accounts profitably and doesn't cause protocol loss, that's acceptable'',
    ''- It's known that liquidators sometimes have a limited capacity to force liquidations to execute at a less favorable price and extract some additional profit from that. This is acceptable even if it causes some amount of unnecessary protocol loss.'',
    ''- It's possible to leverage the rounding direction to artificially inflate the total gross premium and significantly decrease the rate of premium option sellers earn/are able to withdraw (but not the premium buyers pay) in the future (only significant for very-low-decimal pools, since this must be done one token at a time).'',
    ''- It's also possible for options buyers to avoid paying premium by calling settleLongPremium if the amount of premium owed is sufficiently small.'',
    ''- Premium accumulation can become permanently capped if the accumulator exceeds the maximum value; this can happen if a low amount of liquidity earns a large amount of (token) fees'',
    '''',
    ''**Gas & Execution Limitations**'',
    '''',
    ''- The liquidator may not be able to execute a liquidation if MAX_POSITIONS is too high for the deployed chain due to an insufficient gas limit. This parameter is not final and will be adjusted by deployed chain such that the most expensive liquidation is well within a safe margin of the gas limit.'',
    ''- It's expected that liquidators may have to sell options, perform force exercises, and deposit collateral to perform some liquidations. In some situations, the liquidation may not be profitable.'',
    ''- In some situations (stale oracle tick), force exercised users will be worse off than if they had burnt their position.'',
    '''',
    ''**Share Supply Issues**'',
    '''',
    ''- It is feasible for the share supply of the CollateralTracker to approach 2**256 - 1 (given the token supply constraints, this can happen through repeated protocol-loss-causing liquidations), which can cause various reverts and overflows. Generally, issues with an extremely high share supply as a precondition (delegation reverts due to user's balance being too high, other DoS caused by overflows in calculations with share supply or balances, etc.) are not valid unless that share supply can be created through means other than repeated liquidations/high protocol loss.'',
    ''```'',
    '''']\<close>

definition vf_output_valid :: string where
  \<open>vf_output_valid = text_lines
   [''## Panoptic Protocol Validation Output Requirements'',
    '''',
    ''### **OUTPUT REQUIREMENTS**'',
    '''',
    ''**If VALID (extremely rare'' @ uni_em_dash @ ''be ruthlessly sure):**'',
    '''',
    ''Produce a full audit report with these sections and please make it short:'',
    '''',
    ''#### **Title**'',
    ''Precise vulnerability name (e.g., "Share Price Manipulation in CollateralTracker Allows Asset Drainage")'',
    '''',
    ''#### **Summary**'',
    ''Two to three sentences summarizing:'',
    ''- What goes wrong'',
    ''- Where in the codebase (file and function)'',
    ''- Why it's critical (impact category)'',
    '''',
    ''#### **Impact**'',
    ''**Severity**: [Critical / High / Medium]'',
    ''**Category**: [Direct Fund Loss / Permanent Fund Freeze / Protocol Insolvency / Economic Manipulation / State Inconsistency]'',
    '''',
    ''Describe:'',
    ''- Concrete financial impact or protocol disruption'',
    ''- Affected parties (all users, liquidators, PLPs, specific addresses)'',
    ''- Quantify potential loss (amount of ETH/USDC, collateral affected)'',
    '''',
    ''#### **Finding Description**'',
    '''',
    ''**Location**: `contracts/[filename].sol:[line_start]-[line_end]`, function `[functionName]()`'',
    '''',
    ''**Intended Logic**: Expected behavior per protocol spec and invariants'',
    '''',
    ''**Actual Logic**: Describe the flawed logic with exact code quotes'',
    '''',
    ''**Code Evidence**:'',
    ''```solidity'',
    ''// Quote relevant code from the vulnerable file'',
    ''// Include 5-10 lines of context'',
    ''// Show the specific line(s) with the bug'',
    ''```'',
    '''',
    ''**Exploitation Path**:'',
    ''1. **Preconditions**: Initial state (e.g., "Attacker deposits 1 ETH collateral")'',
    ''2. **Step 1**: Specific action (e.g., "Attacker mints position with manipulated TokenId")'',
    ''    - Position structure (legs, strikes, width, token amounts)'',
    ''    - Code path: `PanopticPool.dispatch()` '' @ uni_arrow @ '' `RiskEngine.isAccountSolvent()` '' @ uni_arrow @ '' `CollateralTracker.delegate()`'',
    ''3. **Step 2**: State change (e.g., "Share price decreases due to accounting error")'',
    ''    - Storage state: `totalAssets()`, `totalSupply()`, `s_depositedAssets`'',
    ''    - Oracle observations: Price ticks, EMA values'',
    ''4. **Step 3**: Follow-up action (e.g., "Attacker withdraws assets at inflated share price")'',
    ''    - Timing: Executed after share price manipulation'',
    ''5. **Step 4**: Unauthorized outcome (e.g., "Attacker drains 100 ETH from CollateralTracker")'',
    ''    - Invariant broken: Share price monotonicity violated, collateral conservation failed'',
    '''',
    ''**Security Property Broken**: [Which of the 26 Panoptic invariants is violated]'',
    ''- Example: "Invariant #3: Share Price Monotonicity - Share price must be non-decreasing except for protocol-favorable rounding"'',
    '''',
    ''**Root Cause Analysis**:'',
    ''Deep dive into why the bug exists:'',
    ''- Missing share price validation in `CollateralTracker.settleLiquidation()`'',
    ''- Incorrect asset accounting in `totalAssets()` calculation'',
    ''- Race condition between `delegate()` and `revoke()` operations'',
    ''- No overflow protection in share supply calculations'',
    '''']\<close>

definition vf_output_impact :: string where
  \<open>vf_output_impact = text_lines
   [''#### **Impact Explanation**'',
    '''',
    ''**Affected Assets**: [ETH, USDC, custom tokens, user collateral, protocol assets]'',
    '''',
    ''**Damage Severity**:'',
    ''- **Quantitative**: "Attacker can drain arbitrary amounts limited only by available liquidity. Protocol-wide impact: all CollateralTracker vaults vulnerable."'',
    ''- **Qualitative**: "Complete loss of collateral integrity. Users cannot trust deposited funds."'',
    '''',
    ''**User Impact**:'',
    ''- **Who**: All PLPs, options buyers/sellers, liquidators'',
    ''- **Conditions**: Exploitable during normal operation, worse during high volatility'',
    ''- **Recovery**: Requires emergency pause and manual intervention'',
    '''',
    ''**Systemic Risk**:'',
    ''- Enables further attacks: Can be automated with bots'',
    ''- Cascading effects: Share price manipulation affects all positions'',
    ''- Detection difficulty: Requires forensic analysis of share accounting'',
    '''',
    ''#### **Likelihood Explanation**'',
    '''',
    ''**Attacker Profile**:'',
    ''- **Identity**: Any user with ETH/USDC to deposit'',
    ''- **Resources Required**: Minimal capital, ability to mint/burn positions'',
    ''- **Technical Skill**: Medium (requires understanding of TokenId encoding and share accounting)'',
    '''',
    ''**Preconditions**:'',
    ''- **Market State**: Normal operation or high volatility'',
    ''- **Attacker State**: Needs collateral deposit and position minting capability'',
    ''- **Timing**: Requires specific oracle state or price manipulation'',
    '''',
    ''**Execution Complexity**:'',
    ''- **Transaction Count**: Multiple dispatch calls for position manipulation'',
    ''- **Coordination**: Requires precise timing of mint/burn operations'',
    ''- **Detection Risk**: Low initially (appears as normal trading), high after analysis'',
    '''',
    ''**Frequency**:'',
    ''- **Repeatability**: Unlimited (attacker can repeat with different positions)'',
    ''- **Scale**: Protocol-wide (affects all users in affected vaults)'',
    '''',
    ''**Overall Assessment**: High likelihood (accounting errors exist, low barrier to exploit, profitable)'',
    '''']\<close>

definition vf_output_recommendation :: string where
  \<open>vf_output_recommendation = text_lines
   [''#### **Recommendation**'',
    '''',
    ''**Immediate Mitigation**:'',
    ''Add share price validation to prevent manipulation:'',
    ''```solidity'',
    ''// In CollateralTracker.sol'',
    ''function _validateSharePrice() internal view {'',
    ''    require(totalAssets() * 1e18 >= totalSupply() * lastSharePrice, "Share price decreased");'',
    ''    }'',
    ''```'',
    '''',
    ''**Permanent Fix**:'',
    ''Implement proper asset accounting with overflow checks:'',
    '''',
    ''```solidity'',
    ''// File: contracts/CollateralTracker.sol'',
    ''// Function: totalAssets()'',
    '''',
    ''function totalAssets() public view override returns (uint256) {'',
    ''    // Fixed logic with proper validation'',
    ''    uint256 assets = s_depositedAssets + s_assetsInAMM + unrealizedGlobalInterest;'',
    ''    require(assets >= s_depositedAssets, "Asset accounting error");'',
    ''    return assets;'',
    ''}'',
    ''```'',
    '''',
    ''  **Additional Measures**:'',
    ''- Add test case: `test/share_price_manipulation.t.sol` verifying share price protection'',
    ''- Add monitoring: Alert when share price decreases unexpectedly'',
    ''- Protocol upgrade: Implement enhanced share accounting with invariant checks'',
    '''',
    ''**Validation**:'',
    ''- [ ] Fix prevents share price manipulation'',
    ''- [ ] No new vulnerabilities introduced (gas costs, complexity)'',
    ''- [ ] Backward compatible (existing positions remain valid)'',
    ''- [ ] Performance impact acceptable (minimal gas overhead)'',
    '''']\<close>

definition vf_output_poc :: string where
  \<open>vf_output_poc = text_lines
   [''#### **Proof of Concept**'',
    ''Note the proof of concept has to be a complete test using their test setup that must run so pls u must always a very good test function and dont go out of concept that must proove the issue if its valid,'',
    '''',
    ''```solidity'',
    ''   // File: test/foundry/exploits/SharePriceDrain.t.sol'',
    ''contract SharePriceDrainTest is Test {'',
    ''function testSharePriceManipulation() public {'',
    ''        // Setup: Deploy Panoptic contracts'',
    ''        // Step 1: Attacker deposits collateral'',
    ''        // Step 2: Manipulate share price through position operations'',
    ''        // Step 3: Withdraw excess assets'',
    ''                                                                                                                                                                                  // Step 4: Verify protocol loss'',
    ''}'',
    ''}'',
    ''```'',
    '''',
    ''  **Expected Output** (when vulnerability exists):'',
    ''```'',
    ''[PASS] testSharePriceManipulation() (gas: 245000)'',
    ''Attacker drained 100 ETH from protocol'',
    ''```'',
    '''',
    ''  **Expected Output** (after fix applied):'',
    ''```'',
    ''[FAIL] testSharePriceManipulation() (gas: 245000)'',
    ''Share price manipulation prevented'',
    ''```'',
    '''',
    ''  **PoC Validation**:'',
    ''- [ ] PoC runs against unmodified Panoptic codebase'',
    ''- [ ] Demonstrates clear violation of share price invariant'',
    ''- [ ] Shows measurable financial impact'',
    ''- [ ] Fails gracefully after fix applied'',
    '''']\<close>

definition vf_output_invalid :: string where
  \<open>vf_output_invalid = text_lines
   [''**If INVALID (default when any condition fails):**'',
    '''',
    ''Output exactly:'',
    '''',
    ''```'',
    ''#NoVulnerability found for this question.'',
    ''```'',
    '''']\<close>

definition vf_checklist :: string where
  \<open>vf_checklist = text_lines
   [''### **CRITICAL VALIDATION CHECKLIST**'',
    '''',
    ''Before accepting any vulnerability, verify:'',
    '''',
    ''1. **Scope Compliance**: Vulnerability affects only the 11 in-scope contracts [1](#5-0)'',
    ''2. **Not Known Issue**: Check against README known issues [2](#5-1)'',
    ''    3. **Trust Model**: Exploit doesn't require Uniswap or oracle compromise'',
    ''4. **Impact Severity**: Meets Critical/High/Medium per Immunefi Panoptic scope'',
    ''5. **Economic Incentive**: Attack must be profitable for attacker'',
    ''6. **Technical Feasibility**: Exploit can be implemented without protocol modifications'',
    ''7. **Invariant Violation**: Clearly breaks one of the 26 documented invariants'',
    ''8. **PoC Completeness**: Test runs successfully against unmodified codebase'',
    '''',
    ''**Remember**: False positives harm credibility. Assume claims are invalid until overwhelming evidence proves otherwise.'']\<close>

definition validation_format_template :: "piece list" where
  \<open>validation_format_template =
     [Lit ''\<newline>'']
   @ [Lit vf_persona]
   @ [Lit vf_claim_heading]
   @ vf_report
   @ [Lit vf_framework_heading]
   @ [Lit vf_phase1_heading]
   @ [Lit vf_scope_violations]
   @ [Lit vf_in_scope_files]
   @ [Lit vf_threat_model]
   @ [Lit vf_known_issues]
   @ [Lit vf_non_security]
   @ [Lit vf_invalid_scenarios]
   @ [Lit vf_phase2_trace]
   @ [Lit vf_phase2_evidence]
   @ [Lit vf_phase2_tests]
   @ [Lit vf_phase3_impact]
   @ [Lit vf_phase3_likelihood]
   @ [Lit vf_phase4]
   @ [Lit vf_output_valid]
   @ [Lit vf_output_impact]
   @ [Lit vf_output_recommendation]
   @ [Lit vf_output_poc]
   @ [Lit vf_output_invalid]
   @ [Lit vf_checklist]\<close>

subsection \<open>\<^verbatim>\<open>question_generator\<close>, source lines 1009 to 1290\<close>

definition qg_title :: string where
  \<open>qg_title = text_lines
   [''# **Generate 150+ Targeted Security Audit Questions for Panoptic Protocol**'',
    '''']\<close>

definition qg_context :: string where
  \<open>qg_context = text_lines
   [''## **Context**'',
    '''',
    ''The target project is **Panoptic**, a permissionless options trading protocol that enables perpetual options trading on top of any Uniswap V3 or V4 pool. Unlike traditional options protocols, Panoptic employs a **fully collateralized model** where options positions are represented as Uniswap liquidity positions, with selling options corresponding to adding liquidity and buying options corresponding to removing liquidity. The protocol features **PanopticPool** (orchestrator contract), **RiskEngine** (risk assessment and solvency calculator), **CollateralTracker** (ERC4626 vault for collateral), **SemiFungiblePositionManager** (position engine), and sophisticated **oracle management** with volatility safeguards.'',
    '''',
    ''Panoptic's architecture includes critical components for position minting/burning, collateral management, risk calculations, liquidation handling, premium settlement, and interest accrual. The protocol maintains solvency through dynamic collateral requirements, cross-collateralization between tokens, and adaptive interest rates based on pool utilization, while supporting complex features like multi-leg options strategies, force exercises, and protocol fee distribution.'',
    '''']\<close>

definition qg_scope :: "piece list" where
  \<open>qg_scope =
   [Lit (text_lines
      [''## **Scope**'',
       '''']),
    Lit ''**CRITICAL TARGET FILE**: Focus question generation EXCLUSIVELY on `'', Field ''target_file'', Lit ''`\<newline>'',
    Lit (text_lines
      ['''']),
    Lit ''Note: The questions must be generated from **`'', Field ''target_file'', Lit ''`** only. If you cannot generate enough questions from this single file, provide as many quality questions as you can extract from the file's logic and interactions. **DO NOT return empty results** - give whatever questions you can derive from the target file.\<newline>'',
    Lit (text_lines
      ['''',
       ''If you cannot reach 150 questions from this file alone, generate as many high-quality questions as the file's complexity allows (minimum target: 50-100 questions for large critical files, 20-50 for smaller files).'',
       ''''])]\<close>

definition qg_full_context :: string where
  \<open>qg_full_context = text_lines
   [''**Full Context - 11 In-Scope Files (for reference only):**'',
    ''If a file is more than a thousand u can generate as many as 300 plus questions as u can u cant but pls always generate as many as u can dont give other response, '',
    ''If there are maths logic also generate as many questions base on all the maths logic too among the questions u are giving to me cover all scope and entrypoints'',
    ''### **Core Protocol Contracts - 11 files**'',
    '''']\<close>

definition qg_core_files :: string where
  \<open>qg_core_files = text_lines
   [''```python'',
    ''core_files = ['',
    ''    "contracts/PanopticPool.sol",              # 1183 nSLOC - Main orchestrator'',
    ''    "contracts/RiskEngine.sol",                # 1294 nSLOC - Risk calculator'',
    ''    "contracts/SemiFungiblePositionManager.sol", # 673 nSLOC - Position engine'',
    ''    "contracts/SemiFungiblePositionManagerV4.sol", # 631 nSLOC - V4 position engine'',
    ''    "contracts/CollateralTracker.sol",         # 863 nSLOC - ERC4626 vault'',
    ''    "contracts/types/OraclePack.sol",          # 291 nSLOC - Oracle observations'',
    ''    "contracts/types/MarketState.sol",         # 65 nSLOC - Interest rate state'',
    ''    "contracts/types/PoolData.sol",            # 42 nSLOC - Pool configuration'',
    ''    "contracts/types/RiskParameters.sol",      # 72 nSLOC - Risk parameters'',
    ''    "contracts/libraries/PanopticMath.sol",    # 369 nSLOC - Options math'',
    ''    "contracts/libraries/Math.sol",            # 641 nSLOC - Generic math'',
    '']'',
    ''```'',
    '''']\<close>

definition qg_total :: "piece list" where
  \<open>qg_total =
   [Lit ''**Total: 11 files in full scope (but focus ONLY on `'', Field ''target_file'', Lit ''` for this generation)**\<newline>'',
    Lit (text_lines
      [''''])]\<close>

definition qg_architecture :: string where
  \<open>qg_architecture = text_lines
   [''---'',
    '''',
    ''## **Panoptic Protocol Architecture & Layers**'',
    '''',
    ''### **1. Position Management Layer** (`PanopticPool.sol`, `SemiFungiblePositionManager.sol`)'',
    '''',
    ''- **Position Orchestration**: PanopticPool coordinates all protocol interactions through `dispatch()` and `dispatchFrom()` entry points'',
    ''- **TokenId Encoding**: Complex multi-leg positions encoded in 256-bit ERC1155 tokenIds with poolId, legs, strike, width, and option parameters'',
    ''- **Liquidity Operations**: Mint positions add liquidity to Uniswap (short options), burn positions remove liquidity (long options)'',
    ''- **Position Limits**: Users can mint up to 33 position legs total across all positions (`MAX_OPEN_LEGS`)'',
    ''- **Commission Handling**: Fees split between protocol, builders, and PLPs according to `PROTOCOL_SPLIT` and `BUILDER_SPLIT`'',
    '''',
    ''### **2. Risk & Collateral Layer** (`RiskEngine.sol`, `CollateralTracker.sol`)'',
    '''',
    ''- **Solvency Verification**: RiskEngine calculates collateral requirements and verifies account solvency through `isAccountSolvent()`'',
    ''- **Dynamic Collateral**: Requirements scale with pool utilization using utilization-based multipliers (`VEGOID` parameter)'',
    ''- **Cross-Collateralization**: Token0 and Token1 balances can be used to collateralize each other with `crossBufferRatio`'',
    ''- **Interest Accrual**: Compound interest model where borrowers pay rates determined by utilization-based IRM'',
    ''- **Liquidation Bonuses**: Calculated via `getLiquidationBonus()` to incentivize liquidation of distressed accounts'',
    '''',
    ''### **3. Oracle & Price Layer** (`OraclePack.sol`, `PanopticMath.sol`)'',
    '''',
    ''- **Multi-Oracle System**: Fast oracle (current tick), slow oracle (EMA), and median tick for price manipulation resistance'',
    ''- **Volatility Safeguards**: EMA filters and median buffers prevent price manipulation attacks'',
    ''- **Safe Mode**: Protocol enters conservative mode when oracle deltas exceed thresholds (`MAX_TICKS_DELTA`)'',
    ''- **TWAP Calculations**: Time-weighted average prices for accurate option pricing and settlement'',
    ''- **Price Conversions**: Sophisticated math for converting between tokens based on oracle ticks'',
    '''',
    ''### **4. Asset & Token Layer** (`CollateralTracker.sol`, `Math.sol`)'',
    '''',
    ''- **ERC4626 Integration**: CollateralTrackers implement vault standard for deposits and withdrawals'',
    ''- **Share Accounting**: `totalAssets()`, `totalSupply()`, `s_depositedAssets`, `s_assetsInAMM` tracking'',
    ''- **Premium Settlement**: Collection and distribution of option premia between buyers and sellers'',
    ''- **Balance Operations**: Deposit, withdraw, mint, redeem, delegate, and revoke share operations'',
    ''- **Rounding Protection**: Share price must be non-decreasing except for protocol-favorable rounding'',
    '''',
    ''### **5. Interest Rate Layer** (`MarketState.sol`, `RiskEngine.sol`)'',
    '''',
    ''- **Adaptive IRM**: PID controller approach targeting 66.67% utilization (`TARGET_POOL_UTIL`)'',
    ''- **Rate Boundaries**: Rates bounded between `MIN_RATE_AT_TARGET` and `MAX_RATE_AT_TARGET`'',
    ''- **Borrow Index Tracking**: Global and per-user borrow indices for compound interest calculations'',
    ''- **Utilization Calculations**: Real-time pool utilization affects interest rates and collateral requirements'',
    ''- **Interest State Management**: Tracking of net borrows and last interaction timestamps per user'',
    '''',
    ''---'',
    '''']\<close>

definition qg_invariants :: string where
  \<open>qg_invariants = text_lines
   [''## **Critical Security Invariants**'',
    '''',
    ''### **Solvency & Collateral**'',
    '''',
    ''1. **Solvency Maintenance**: All accounts must satisfy `balance0 + convert(scaledSurplus1) >= maintReq0` AND `balance1 + convert(scaledSurplus0) >= maintReq1` at oracle tick'',
    ''2. **Collateral Conservation**: Total assets must equal `s_depositedAssets + s_assetsInAMM + unrealizedGlobalInterest` at all times'',
    ''3. **Share Price Monotonicity**: Share price (`totalAssets() / totalSupply()`) must be non-decreasing except for protocol-favorable rounding'',
    ''4. **Interest Index Monotonicity**: Global `borrowIndex` must be monotonically increasing starting from 1e18 (WAD)'',
    ''5. **Cross-Collateral Limits**: Cross-buffer ratio must scale conservatively with utilization, dropping to zero at 90% utilization'',
    ''6. **Position Size Limits**: Individual positions limited by available Uniswap liquidity and `MAX_SPREAD = 90%`'',
    '''',
    ''### **Oracle & Price Integrity**'',
    '''',
    ''7. **Oracle Delta Limits**: Fast/slow oracle delta '' @ uni_le @ '' 953 ticks (~10%), median/slow delta '' @ uni_le @ '' 2'' @ uni_times @ ''MAX_TICKS_DELTA'',
    ''8. **Safe Mode Activation**: Protocol must enter safe mode when oracle deltas exceed thresholds'',
    ''9. **TWAP Accuracy**: TWAP calculations must use sufficient time windows to prevent manipulation'',
    ''10. **Price Consistency**: All operations in a single transaction must use consistent oracle tick(s)'',
    ''11. **Liquidation Price Bounds**: Current tick must be within 513 ticks of TWAP during liquidation (~5% deviation)'',
    '''',
    ''### **Position & State Management**'',
    '''',
    ''12. **Position Encoding Validity**: TokenId encoding must produce valid tick ranges and liquidity amounts'',
    ''13. **Leg Count Limits**: Users cannot exceed `MAX_OPEN_LEGS = 33` total position legs'',
    ''14. **Premium Accounting**: Premium distribution must be proportional to liquidity share in each chunk'',
    ''15. **Force Exercise Costs**: Base cost of 1.024% for in-range, 1 bps for out-of-range positions'',
    ''16. **Liquidation Completeness**: Liquidations must close all positions held by the liquidatee'',
    '''',
    ''### **Asset & Share Integrity**'',
    '''',
    ''17. **Asset Accounting**: `totalSupply()` must equal `_internalSupply + s_creditedShares` at all times'',
    ''18. **Deposit Limits**: Deposits must not exceed `type(uint104).max`, withdrawals must leave '' @ uni_ge @ ''1 asset'',
    ''19. **Share Transfer Restrictions**: Users with open positions cannot transfer shares via `transfer()` or `transferFrom()`'',
    ''20. **Credited Shares Logic**: `s_creditedShares` only increases on position creation, decreases on closure'',
    ''21. **Interest Accuracy**: Interest owed must equal `netBorrows * (currentBorrowIndex - userBorrowIndex) / userBorrowIndex`'',
    '''',
    ''### **Liquidation & Protocol Safety**'',
    '''',
    ''22. **Liquidation Bonus Caps**: Bonus cannot exceed liquidatee's pre-liquidation collateral balance'',
    ''23. **Premium Haircutting**: Premium must be clawed back if protocol loss exists after liquidation'',
    ''24. **Protocol Loss Limits**: Share supply approaching 2^256-1 can cause various reverts and overflows'',
    ''25. **Force Exercise Validation**: Only long legs contribute to force exercise costs, must account for token deltas'',
    ''26. **Solvency Check Timing**: Solvency must be checked at oracle tick, not current tick, to prevent manipulation'',
    '''',
    ''---'',
    '''']\<close>

definition qg_vulnerability_categories :: string where
  \<open>qg_vulnerability_categories = text_lines
   [''## **In-Scope Vulnerability Categories** (from Immunefi)'',
    '''',
    ''Focus questions on vulnerabilities that lead to these impacts:'',
    '''',
    ''### **Critical Severity**'',
    '''',
    ''1. **Direct loss of funds**'',
    ''   - Collateral calculation errors allowing undercollateralized positions'',
    ''   - Double-spending or duplicate position minting'',
    ''   - Share price manipulation allowing asset drainage'',
    ''   - Interest accrual bugs causing unlimited minting'',
    ''   - Oracle manipulation enabling profitable liquidations'',
    '''',
    ''2. **Permanent freezing of funds (fix requires hardfork)**'',
    ''   - Position encoding bricking addresses permanently'',
    ''   - Share supply overflow preventing all withdrawals'',
    ''   - Interest state corruption blocking position closures'',
    ''   - Invalid tokenIds locking positions permanently'',
    '''',
    ''3. **Protocol insolvency**'',
    ''   - Collateral requirements calculation errors'',
    ''   - Liquidation bonus calculation allowing protocol loss'',
    ''   - Cross-collateralization bugs causing systemic undercollateralization'',
    ''   - Premium settlement errors causing fund drainage'',
    '''',
    ''### **High Severity**'',
    '''',
    ''4. **Temporary freezing of funds**'',
    ''   - Liquidation failures preventing position closures'',
    ''   - Oracle stale prices blocking all operations'',
    ''   - Interest accrual overflow preventing withdrawals'',
    ''   - Share transfer restrictions bypassed incorrectly'',
    '''',
    ''5. **Incorrect protocol behavior**'',
    ''   - Risk calculation errors producing wrong solvency results'',
    ''   - Premium distribution bugs favoring certain users'',
    ''   - Force exercise cost calculation errors'',
    ''   - Position size limit bypasses'',
    '''',
    ''### **Medium Severity**'',
    '''',
    ''6. **Economic manipulation**'',
    ''   - Premium accumulation manipulation'',
    ''   - Interest rate manipulation through utilization attacks'',
    ''   - Liquidation bonus extraction beyond intended amounts'',
    ''   - Gas griefing through expensive operations'',
    '''',
    ''7. **State inconsistencies**'',
    ''   - Oracle state divergence between components'',
    ''   - Position balance tracking errors'',
    ''   - Interest index calculation inaccuracies'',
    ''   - Share/asset accounting mismatches'',
    '''',
    ''---'',
    '''']\<close>

definition qg_impact_categories :: string where
  \<open>qg_impact_categories = text_lines
   [''## **Valid Impact Categories (Restated for Panoptic)**'',
    '''',
    ''### **Critical**'',
    '''',
    ''- Direct theft of user funds or protocol assets'',
    ''- Permanent fund freezing requiring hard fork'',
    ''- Protocol insolvency leading to systemic loss'',
    ''- Unlimited asset minting or share price collapse'',
    '''',
    ''### **High**'',
    '''',
    ''- Temporary fund freezing with economic loss'',
    ''- Systemic undercollateralization risks'',
    ''- Widespread position liquidations due to bugs'',
    ''- Oracle manipulation enabling profitable attacks'',
    '''',
    ''### **Medium**'',
    '''',
    ''- Economic manipulation benefiting attackers'',
    ''- State inconsistencies requiring manual intervention'',
    ''- Premium or interest calculation errors'',
    ''- Gas griefing or DoS vulnerabilities'',
    '''',
    ''### **Out of Scope**'',
    '''',
    ''- Gas optimization inefficiencies'',
    ''- UI/UX issues in frontends'',
    ''- Market risk (price movements)'',
    ''- Third-party oracle failures (unless oracle protocol broken)'',
    ''- MEV or front-running attacks'',
    ''- Theoretical attacks without economic impact'',
    '''',
    ''---'',
    '''']\<close>

definition qg_goals :: "piece list" where
  \<open>qg_goals =
   [Lit (text_lines
      [''## **Goals for Question Generation**'',
       '''',
       ''1. **Real Exploit Scenarios**: Each question describes a plausible attack an attacker, liquidator, or malicious user could perform'']),
    Lit ''2. **Concrete & Actionable**: Reference specific functions, variables, or logic flows in `'', Field ''target_file'', Lit ''`\<newline>'',
    Lit (text_lines
      [''3. **High Impact**: Prioritize questions leading to Critical/High/Medium impacts per Immunefi scope'',
       ''4. **Deep Financial Logic**: Focus on subtle state transitions, cross-contract interactions, rounding errors, oracle manipulation, collateral calculation bugs'']),
    Lit ''5. **Breadth Within Target File**: Cover all major functions, edge cases, and state-changing operations in `'', Field ''target_file'', Lit ''`\<newline>'',
    Lit (text_lines
      [''6. **Respect Trust Model**: Uniswap pools and oracles are trusted; focus on attacks by regular users or attackers'']),
    Lit (''7. **No Generic Questions**: Avoid "are there reentrancy issues?" '' @ uni_arrow @ '' Instead: "In `''), Field ''target_file'', Lit '': functionName()`, if condition X occurs, can attacker exploit Y to cause Z impact?"\<newline>'',
    Lit (text_lines
      ['''',
       ''---'',
       ''''])]\<close>

definition qg_question_template :: "piece list" where
  \<open>qg_question_template =
   [Lit (text_lines
      [''## **Question Format Template**'',
       '''',
       ''Each question MUST follow this Python list format:'',
       '''',
       ''```python'',
       ''questions = ['']),
    Lit ''    "[File: '', Field ''target_file'', Lit ''] [Function: functionName()] [Vulnerability Type] Specific question describing attack vector, preconditions, and impact linking to Immunefi categories?",\<newline>'',
    Lit (text_lines
      [''    '']),
    Lit ''    "[File: '', Field ''target_file'', Lit ''] [Function: anotherFunction()] [Vulnerability Type] Another specific question with concrete exploit scenario?",\<newline>'',
    Lit (text_lines
      [''    '',
       ''    # ... continue with all generated questions'',
       '']'',
       ''```'',
       '''',
       ''**Example Format** (if target_file is `contracts/PanopticPool.sol`):'',
       ''```python'',
       ''questions = ['',
       ''    "[File: contracts/PanopticPool.sol] [Function: dispatch()] [Solvency bypass] Can an attacker craft a malicious positionIdList that passes initial solvency checks but becomes insolvent after the first leg is minted, allowing them to open undercollateralized positions and potentially drain protocol funds?",'',
       ''    '',
       ''    "[File: contracts/PanopticPool.sol] [Function: _settlePremium()] [Premium manipulation] Does the premium settlement logic correctly handle edge cases where settled premium is less than owed premium, potentially allowing attackers to manipulate premium accumulation and extract excess value from sellers?",'',
       ''    '',
       ''    "[File: contracts/PanopticPool.sol] [Function: liquidateAccount()] [Liquidation bonus extraction] Can a liquidator manipulate the oracle tick between solvency check and liquidation execution to extract higher liquidation bonuses than intended, causing protocol loss?",'',
       '']'',
       ''```'',
       '''',
       ''---'',
       ''''])]\<close>

definition qg_output_requirements :: "piece list" where
  \<open>qg_output_requirements =
   [Lit (text_lines
      [''## **Output Requirements**'',
       '''']),
    Lit ''Generate security audit questions focusing EXCLUSIVELY on **`'', Field ''target_file'', Lit ''`** that:\<newline>'',
    Lit (text_lines
      ['''']),
    Lit ''1. **Target ONLY `'', Field ''target_file'', Lit ''`** - all questions must reference this file\<newline>'',
    Lit ''2. **Reference specific functions, variables, or logic sections** within `'', Field ''target_file'', Lit ''`\<newline>'',
    Lit ''3. **Describe concrete attack vectors** (not "could there be a bug?" but "can attacker do X by exploiting Y in `'', Field ''target_file'', Lit ''`?")\<newline>'',
    Lit (text_lines
      [''4. **Tie to Immunefi impact categories** (fund loss, freezing, insolvency, manipulation, DoS)'',
       ''5. **Respect trust model** (Uniswap and oracles are trusted; focus on user/attacker actions)'']),
    Lit ''6. **Cover diverse attack surfaces** within `'', Field ''target_file'', Lit ''`: validation logic, state transitions, error handling, edge cases, interactions with other contracts\<newline>'',
    Lit (text_lines
      [''7. **Focus on high-severity bugs**: prioritize Critical > High > Medium impacts'',
       ''8. **Avoid out-of-scope issues**: gas optimization, UI bugs, theoretical attacks without economic impact'',
       ''9. **Use the exact Python list format** shown above'',
       ''10. **Be detailed and technical**: assume auditor has deep DeFi knowledge; use precise terminology'',
       ''''])]\<close>

definition qg_target_question_count :: string where
  \<open>qg_target_question_count = text_lines
   [''**Target Question Count:**'',
    ''- For large critical files (>1000 nSLOC like PanopticPool.sol, RiskEngine.sol): Aim for 100-150 questions'',
    ''- For medium files (300-1000 nSLOC): Aim for 50-100 questions  '',
    ''- For smaller files (<300 nSLOC): Aim for 20-50 questions'',
    ''- **Provide as many quality questions as the file's complexity allows - do NOT return empty results**'',
    '''']\<close>

definition qg_begin :: "piece list" where
  \<open>qg_begin =
   [Lit ''**Begin generating questions for `'', Field ''target_file'', Lit ''` now.\<newline>'']\<close>

definition question_generator_template :: "piece list" where
  \<open>question_generator_template =
     [Lit ''\<newline>'']
   @ [Lit qg_title]
   @ [Lit qg_context]
   @ qg_scope
   @ [Lit qg_full_context]
   @ [Lit qg_core_files]
   @ qg_total
   @ [Lit qg_architecture]
   @ [Lit qg_invariants]
   @ [Lit qg_vulnerability_categories]
   @ [Lit qg_impact_categories]
   @ qg_goals
   @ qg_question_template
   @ qg_output_requirements
   @ [Lit qg_target_question_count]
   @ qg_begin\<close>

section \<open>The three composers\<close>

text \<open>
  Each composer evaluates its f-string in the scope of the call: the module's global
  names, with the parameter bound on top of them, and returns the text.
\<close>

definition question_format :: "(string \<rightharpoonup> string) \<Rightarrow> string \<Rightarrow> exn + string" where
  "question_format globals question =
     format_pieces (globals(''question'' \<mapsto> question)) question_format_template"

definition validation_format :: "(string \<rightharpoonup> string) \<Rightarrow> string \<Rightarrow> exn + string" where
  "validation_format globals report =
     format_pieces (globals(''report'' \<mapsto> report)) validation_format_template"

definition question_generator :: "(string \<rightharpoonup> string) \<Rightarrow> string \<Rightarrow> exn + string" where
  "question_generator globals target_file =
     format_pieces (globals(''target_file'' \<mapsto> target_file)) question_generator_template"

section \<open>Notions used by the properties\<close>

text \<open>The names of the replacement fields of a template.\<close>

fun field_names :: "piece list \<Rightarrow> string list" where
  "field_names [] = []"
| "field_names (Lit s # ps) = field_names ps"
| "field_names (Field n # ps) = n # field_names ps"

text \<open>A template with every field replaced by one text.\<close>

fun fill :: "string \<Rightarrow> piece list \<Rightarrow> string" where
  "fill v [] = []"
| "fill v (Lit s # ps) = s @ fill v ps"
| "fill v (Field n # ps) = v @ fill v ps"

text \<open>The texts \<open>xs\<close> occur in \<open>t\<close> one after the other, without overlap.\<close>

fun occur_in_order :: "string list \<Rightarrow> string \<Rightarrow> bool" where
  "occur_in_order [] t = True"
| "occur_in_order (x # xs) t = (\<exists>pre post. t = pre @ x @ post \<and> occur_in_order xs post)"

text \<open>A non-empty text without a line feed: it can only occur inside one line.\<close>

definition one_line :: "string \<Rightarrow> bool" where
  "one_line q = (q \<noteq> [] \<and> CHR ''\<newline>'' \<notin> set q)"

text \<open>A text that is empty or ends with a line feed.\<close>

definition ends_line :: "string \<Rightarrow> bool" where
  "ends_line s = (s = [] \<or> last s = CHR ''\<newline>'')"

text \<open>Decimal notation of a natural number, as the list markers of the prompts write it.\<close>

fun decimal :: "nat \<Rightarrow> string" where
  "decimal n =
     (if n < 10 then [''0123456789'' ! n]
      else decimal (n div 10) @ [''0123456789'' ! (n mod 10)])"

declare decimal.simps [simp del]

text \<open>The marker that opens entry \<open>n\<close> of a numbered catalog, as in \<^verbatim>\<open>7. **Oracle\<close>.\<close>

definition entry_marker :: "nat \<Rightarrow> string" where
  "entry_marker n = decimal n @ ''. **''"

text \<open>
  The literal that both \<^verbatim>\<open>question_format\<close> and \<^verbatim>\<open>validation_format\<close> ask
  for when there is no finding.
\<close>

definition no_finding_sentinel :: string where
  "no_finding_sentinel = ''#NoVulnerability found for this question.''"

text \<open>
  The texts enclosed by successive pairs of a delimiter: with the backquote, the code
  spans of a Markdown text; with the double quote, the string literals of a Python list.
\<close>

fun enclosed_from :: "char \<Rightarrow> string option \<Rightarrow> string \<Rightarrow> string list" where
  "enclosed_from d cur [] = []"
| "enclosed_from d None (c # cs) =
     (if c = d then enclosed_from d (Some []) cs else enclosed_from d None cs)"
| "enclosed_from d (Some span) (c # cs) =
     (if c = d then span # enclosed_from d None cs else enclosed_from d (Some (span @ [c])) cs)"

definition enclosed :: "char \<Rightarrow> string \<Rightarrow> string list" where
  "enclosed d t = enclosed_from d None t"

text \<open>The Solidity file names among the code spans of a text.\<close>

definition sol_files :: "string \<Rightarrow> string list" where
  "sol_files t = filter (suffix ''.sol'') (enclosed (CHR 0x60) t)"

text \<open>A text made of whole lines, none of which contains \<open>p\<close>.\<close>

definition lines_without :: "string \<Rightarrow> string \<Rightarrow> bool" where
  "lines_without p s = (ends_line s \<and> \<not> sublist p s)"

text \<open>Texts separated by gaps: each pair is a gap and the text that follows it.\<close>

definition interleaved :: "(string \<times> string) list \<Rightarrow> string" where
  "interleaved gs = concat (map (\<lambda>(gap, x). gap @ x) gs)"

text \<open>Inputs of the scenarios.\<close>

definition scenario_question :: string where
  "scenario_question = ''Can utilization manipulation affect interest rates?''"

definition scenario_report :: string where
  "scenario_report = ''## Title\<newline>Share price manipulation in CollateralTracker''"



text \<open>
  The heading of a catalog entry: its first text in bold, with the marks, as in
  \<^verbatim>\<open>**Solvency Maintenance**\<close>. The heading without its opening marks is its tail.
\<close>

definition heading_tail :: "string \<Rightarrow> string" where
  "heading_tail entry =
     takeWhile (\<lambda>c. c \<noteq> CHR ''*'') (drop 2 (dropWhile (\<lambda>c. c \<noteq> CHR ''*'') entry)) @ ''**''"

definition heading_of :: "string \<Rightarrow> string" where
  "heading_of entry = ''**'' @ heading_tail entry"

text \<open>Some text \<open>pre @ q\<close>, with \<open>q\<close> among \<open>qs\<close>, starts the text, or occurs in it.\<close>

definition starts_any :: "string \<Rightarrow> string list \<Rightarrow> string \<Rightarrow> bool" where
  "starts_any pre qs s = list_ex (\<lambda>q. prefix (pre @ q) s) qs"

definition any_after :: "string \<Rightarrow> string list \<Rightarrow> string \<Rightarrow> bool" where
  "any_after pre qs s = list_ex (\<lambda>q. sublist (pre @ q) s) qs"







text \<open>What follows the first occurrence of \<open>p\<close> in a text.\<close>

fun after :: "string \<Rightarrow> string \<Rightarrow> string option" where
  "after p [] = (if p = [] then Some [] else None)"
| "after p (c # cs) =
     (if prefix p (c # cs) then Some (drop (length p) (c # cs)) else after p cs)"













section \<open>Lemmas on texts\<close>

text \<open>A text without a line feed occurs in a text of several lines only inside a line.\<close>

lemma in_line_split:
  assumes "CHR ''\<newline>'' \<notin> set q" and "l @ CHR ''\<newline>'' # B = ps @ q @ ss"
  shows "(\<exists>r. l = ps @ q @ r) \<or> (\<exists>p. B = p @ q @ ss)"
proof -
  from assms(2) consider
    (a) us where "l = ps @ us" "us @ CHR ''\<newline>'' # B = q @ ss"
  | (b) us where "l @ us = ps" "CHR ''\<newline>'' # B = us @ q @ ss"
    by (auto simp: append_eq_append_conv2)
  then show ?thesis
  proof cases
    case a
    from a(2) consider
      (a1) vs where "us = q @ vs"
    | (a2) vs where "us @ vs = q" "CHR ''\<newline>'' # B = vs @ ss"
      by (auto simp: append_eq_append_conv2)
    then show ?thesis
    proof cases
      case a1
      with a(1) show ?thesis by simp
    next
      case a2
      show ?thesis
      proof (cases vs)
        case Nil
        with a2 a(1) show ?thesis by auto
      next
        case (Cons c cs)
        with a2 have "CHR ''\<newline>'' \<in> set q" by auto
        with assms(1) show ?thesis by simp
      qed
    qed
  next
    case b
    show ?thesis
    proof (cases us)
      case Nil
      with b(2) assms(1) have "q = []" by (cases q) auto
      with b Nil show ?thesis by auto
    next
      case (Cons c cs)
      with b(2) show ?thesis by auto
    qed
  qed
qed

lemma sublist_line_feed:
  assumes "one_line q"
  shows "sublist q (l @ CHR ''\<newline>'' # B) \<longleftrightarrow> sublist q l \<or> sublist q B"
proof
  assume "sublist q (l @ CHR ''\<newline>'' # B)"
  then obtain ps ss where "l @ CHR ''\<newline>'' # B = ps @ q @ ss"
    by (auto simp: sublist_def)
  with assms in_line_split [of q l B ps ss] show "sublist q l \<or> sublist q B"
    by (auto simp: one_line_def sublist_def)
next
  assume "sublist q l \<or> sublist q B"
  then show "sublist q (l @ CHR ''\<newline>'' # B)"
    by (auto simp: sublist_append sublist_Cons_right)
qed

lemma text_lines_Cons: "text_lines (l # ls) = l @ CHR ''\<newline>'' # text_lines ls"
  by (simp add: text_lines_def)

lemma text_lines_Nil: "text_lines [] = []"
  by (simp add: text_lines_def)

lemma text_lines_append: "text_lines (xs @ ys) = text_lines xs @ text_lines ys"
  by (simp add: text_lines_def)

lemma sublist_text_lines_append:
  assumes "one_line q"
  shows "sublist q (text_lines ls @ B) \<longleftrightarrow> list_ex (sublist q) ls \<or> sublist q B"
  using assms by (induction ls) (auto simp: text_lines_Cons text_lines_Nil sublist_line_feed)

lemma sublist_text_lines:
  assumes "one_line q"
  shows "sublist q (text_lines ls) \<longleftrightarrow> list_ex (sublist q) ls"
  using sublist_text_lines_append [OF assms, of ls "[]"] assms by (auto simp: one_line_def)

lemma ends_line_text_lines: "ends_line (text_lines ls)"
  by (induction ls rule: rev_induct) (auto simp: ends_line_def text_lines_def)

lemma sublist_ends_line:
  assumes "one_line q" "ends_line A"
  shows "sublist q (A @ B) \<longleftrightarrow> sublist q A \<or> sublist q B"
proof (cases "A = []")
  case True
  with assms show ?thesis by (auto simp: one_line_def)
next
  case False
  with assms(2) have A: "A = butlast A @ [CHR ''\<newline>'']"
    by (metis ends_line_def append_butlast_last_id)
  have "sublist q (A @ B) \<longleftrightarrow> sublist q (butlast A @ CHR ''\<newline>'' # B)"
    by (subst A) simp
  also have "\<dots> \<longleftrightarrow> sublist q (butlast A) \<or> sublist q B"
    by (rule sublist_line_feed [OF assms(1)])
  also have "sublist q (butlast A) \<longleftrightarrow> sublist q A"
    using sublist_line_feed [OF assms(1), of "butlast A" "[]"] assms(1) A
    by (auto simp: one_line_def)
  finally show ?thesis .
qed

lemma occur_in_order_here:
  "occur_in_order xs post \<Longrightarrow> occur_in_order (x # xs) (x @ post)"
  by (auto intro: exI [of _ "[]"])

lemma occur_in_order_later:
  "occur_in_order xs t \<Longrightarrow> occur_in_order xs (pre @ t)"
proof (cases xs)
  case Nil
  then show ?thesis by simp
next
  case (Cons x xs')
  assume "occur_in_order xs t"
  with Cons obtain p post where "t = p @ x @ post" "occur_in_order xs' post"
    by auto
  then have "pre @ t = (pre @ p) @ x @ post \<and> occur_in_order xs' post"
    by simp
  then have "\<exists>a b. pre @ t = a @ x @ b \<and> occur_in_order xs' b"
    by blast
  with Cons show ?thesis
    by simp
qed

lemma suffix_of_shorter:
  assumes "U @ V = W @ Z" "length Z \<le> length V"
  shows "suffix Z V"
  using assms by (auto simp: append_eq_append_conv2 suffix_def)

lemma sublist_later: "sublist x t \<Longrightarrow> sublist x (pre @ t)"
  by (auto simp: sublist_append)

lemma sublist_Cons_later: "sublist x t \<Longrightarrow> sublist x (c # t)"
  by (simp add: sublist_Cons_right)

text \<open>Lines without a given one-line text: closed under concatenation.\<close>

lemma lines_without_Nil: "one_line p \<Longrightarrow> lines_without p []"
  by (simp add: lines_without_def ends_line_def one_line_def)

lemma ends_line_append: "ends_line A \<Longrightarrow> ends_line B \<Longrightarrow> ends_line (A @ B)"
  by (cases "B = []") (auto simp: ends_line_def)

lemma lines_without_append:
  "one_line p \<Longrightarrow> lines_without p A \<Longrightarrow> lines_without p B \<Longrightarrow> lines_without p (A @ B)"
  by (simp add: lines_without_def sublist_ends_line ends_line_append)

lemma lines_without_text_lines:
  "one_line p \<Longrightarrow> lines_without p (text_lines ls) = (\<not> sublist p (text_lines ls))"
  by (simp add: lines_without_def ends_line_text_lines)

lemma lines_without_concat:
  "one_line p \<Longrightarrow> list_all (lines_without p) es \<Longrightarrow> lines_without p (concat es)"
  by (induction es) (simp_all add: lines_without_Nil lines_without_append)

text \<open>
  Rules that walk through a text looking for \<open>p\<close>: line by line where the text is
  given by its lines, character by character elsewhere. Each rule decides its test before
  it goes on.
\<close>

lemma prefix_step: "prefix (x # xs) (y # ys) = (if x = y then prefix xs ys else False)"
  by simp

lemma sublist_step:
  "sublist (x # xs) (y # ys) =
     (if prefix (x # xs) (y # ys) then True else sublist (x # xs) ys)"
  by (auto simp: sublist_Cons_right)

lemma sublist_lines_step:
  "one_line p \<Longrightarrow>
   sublist p (text_lines (l # ls) @ B) =
     (if sublist p l then True else sublist p (text_lines ls @ B))"
  by (auto simp: text_lines_Cons sublist_line_feed)

lemma sublist_lines_last:
  "one_line p \<Longrightarrow>
   sublist p (text_lines (l # ls)) = (if sublist p l then True else sublist p (text_lines ls))"
  using sublist_lines_step [of p l ls "[]"] by simp

lemma sublist_lines_Nil:
  "sublist p (text_lines [] @ B) = sublist p B"
  "sublist (x # xs) (text_lines []) = False"
  by (simp_all add: text_lines_def)


text \<open>Formatting a template whose only field is the parameter fills the field.\<close>

lemma format_pieces_fill:
  "set (field_names ps) \<subseteq> {n} \<Longrightarrow> format_pieces (g(n \<mapsto> v)) ps = Inr (fill v ps)"
  by (induction ps rule: field_names.induct) simp_all

lemma fill_append: "fill v (ps @ qs) = fill v ps @ fill v qs"
  by (induction v ps rule: fill.induct) simp_all

lemma field_names_append: "field_names (ps @ qs) = field_names ps @ field_names qs"
  by (induction ps rule: field_names.induct) simp_all

text \<open>Texts given with the gaps between them occur in their order.\<close>

lemma occur_in_order_interleaved:
  "occur_in_order (map snd gs) (interleaved gs @ rest)"
proof (induction gs)
  case Nil
  then show ?case by simp
next
  case (Cons g gs)
  obtain gap x where g: "g = (gap, x)" by (cases g)
  have "interleaved (g # gs) @ rest = gap @ x @ interleaved gs @ rest"
    by (simp add: interleaved_def g)
  with Cons show ?case
    by (auto simp: g)
qed

lemma occur_in_order_sublist:
  "occur_in_order xs t \<Longrightarrow> x \<in> set xs \<Longrightarrow> sublist x t"
proof (induction xs arbitrary: t)
  case Nil
  then show ?case by simp
next
  case (Cons y ys)
  from Cons.prems(1) obtain pre post where t: "t = pre @ y @ post" "occur_in_order ys post"
    by auto
  show ?case
  proof (cases "x = y")
    case True
    with t show ?thesis by simp
  next
    case False
    with Cons.prems(2) have "x \<in> set ys" by simp
    with Cons.IH t(2) have "sublist x post" .
    then have "sublist x (pre @ y @ post)" by (intro sublist_later)
    with t show ?thesis by simp
  qed
qed

lemma sublist_concat_member: "e \<in> set es \<Longrightarrow> sublist e (concat es)"
  by (induction es) (auto intro: sublist_later)

lemma list_all2_conj_right:
  "list_all2 P xs ys \<Longrightarrow> list_all Q ys \<Longrightarrow> list_all2 (\<lambda>x y. P x y \<and> Q y) xs ys"
  by (induction rule: list_all2_induct) simp_all

text \<open>
  Enclosed texts, line by line: when every line holds an even number of delimiters, no
  enclosed text runs over the end of a line.
\<close>

lemma enclosed_from_append:
  "(case st of None \<Rightarrow> even (count_list xs d) | Some sp \<Rightarrow> odd (count_list xs d)) \<Longrightarrow>
   enclosed_from d st (xs @ ys) = enclosed_from d st xs @ enclosed_from d None ys"
proof (induction xs arbitrary: st)
  case Nil
  then show ?case by (cases st) simp_all
next
  case (Cons c cs)
  show ?case
  proof (cases st)
    case None
    with Cons.prems Cons.IH [of "Some []"] Cons.IH [of None] show ?thesis
      by (auto split: if_splits)
  next
    case (Some sp)
    with Cons.prems Cons.IH [of "Some (sp @ [c])"] Cons.IH [of None] show ?thesis
      by (auto split: if_splits)
  qed
qed

lemma enclosed_text_lines:
  assumes "d \<noteq> CHR ''\<newline>''" and "list_all (\<lambda>l. even (count_list l d)) ls"
  shows "enclosed d (text_lines ls) = concat (map (enclosed d) ls)"
  using assms(2)
proof (induction ls)
  case Nil
  then show ?case by (simp add: enclosed_def text_lines_def)
next
  case (Cons l ls)
  have "enclosed_from d None (l @ CHR ''\<newline>'' # text_lines ls)
          = enclosed_from d None l @ enclosed_from d None (CHR ''\<newline>'' # text_lines ls)"
    using Cons.prems by (intro enclosed_from_append) simp
  with Cons assms(1) show ?case
    by (simp add: enclosed_def text_lines_Cons)
qed



lemmas walk_lines =
  sublist_lines_step sublist_lines_last sublist_lines_Nil sublist_step prefix_step
  sublist_Cons_Nil prefix_Nil Nil_prefix sublist_Nil_left
  append_Cons append_Nil append_Nil2 char.inject list.inject list.distinct
  simp_thms if_True if_False


lemma lines_without_line_feed:
  assumes "one_line p"
  shows "lines_without p ''\<newline>''"
proof -
  have "\<not> sublist p ''\<newline>''"
  proof
    assume "sublist p ''\<newline>''"
    then have "set p \<subseteq> set ''\<newline>''"
      by (rule set_mono_sublist)
    with assms show False
      by (cases p) (auto simp: one_line_def)
  qed
  then show ?thesis
    by (simp add: lines_without_def ends_line_def)
qed

text \<open>
  Rules that walk through a text looking for several texts with a common beginning at
  once: the common beginning is looked for first.
\<close>

lemma starts_any_simps:
  "starts_any (x # pre) qs (c # cs) = (if x = c then starts_any pre qs cs else False)"
  "starts_any (x # pre) qs [] = False"
  by (simp_all add: starts_any_def list_ex_iff)

lemma starts_any_Nil: "starts_any [] qs s = list_ex (\<lambda>q. prefix q s) qs"
  by (simp add: starts_any_def)

lemma list_ex_step:
  "list_ex P (a # as) = (if P a then True else list_ex P as)"
  "list_ex P [] = False"
  by simp_all

lemma any_after_step:
  "any_after (x # pre) qs (c # cs) =
     (if starts_any (x # pre) qs (c # cs) then True else any_after (x # pre) qs cs)"
  "any_after (x # pre) qs [] = False"
  by (auto simp: any_after_def starts_any_def list_ex_iff sublist_Cons_right)

lemma any_after_lines_step:
  assumes "list_all (\<lambda>q. one_line (pre @ q)) qs"
  shows "any_after pre qs (text_lines (l # ls)) =
     (if any_after pre qs l then True else any_after pre qs (text_lines ls))"
  using assms
  by (auto simp: any_after_def list_ex_iff list_all_iff text_lines_Cons sublist_line_feed)

lemma any_after_lines_Nil: "any_after (x # pre) qs (text_lines []) = False"
  by (simp add: text_lines_Nil any_after_step)

lemma lines_without_any:
  assumes "h \<in> set (map ((@) pre) qs)" and "\<not> any_after pre qs (text_lines ls)"
  shows "lines_without h (text_lines ls)"
  using assms by (auto simp: lines_without_def ends_line_text_lines any_after_def list_ex_iff)

lemmas walk_any =
  any_after_lines_Nil any_after_step starts_any_simps list_ex_step prefix_step
  prefix_Nil Nil_prefix append_Cons append_Nil
  char.inject list.inject list.distinct simp_thms if_True if_False


















section \<open>The corpus loader fails soft\<close>

lemma get_questions_returns: "\<exists>v. get_questions file = Inr v"
  by (simp add: get_questions_def split: sum.split)

text \<open>
  Claim C1. Whatever the state of the corpus location that makes the read fail (the file
  is absent, it cannot be read, or its content does not deserialize), \<open>get_questions\<close>
  returns the empty list; and in no state at all does it raise.
\<close>

theorem get_questions_soft_fail:
  "get_questions Absent = Inr (PyList [])
   \<and> get_questions Unreadable = Inr (PyList [])
   \<and> get_questions (Readable Malformed) = Inr (PyList [])
   \<and> (\<forall>file. \<exists>v. get_questions file = Inr v)"
  by (simp add: get_questions_def open_read_def json_load_def get_questions_returns
      split: sum.split)

text \<open>
  Claim C5, as stated, fails: a corpus file whose content deserializes to a JSON object
  is not treated as absent. The loader returns the object.
\<close>

theorem get_questions_object_counterexample:
  "get_questions (Readable (Document (PyDict [(''q'', PyStr ''x'')]))) \<noteq> Inr (PyList [])"
  by (simp add: get_questions_def open_read_def json_load_def)

text \<open>
  Claim C5, amended. When the content of the corpus file deserializes, \<open>get_questions\<close>
  returns the deserialized value as it is, whatever its shape: a value that is not an
  ordered sequence (an object, a string, a number) is not treated as absence, and the
  result is the empty sequence only when the value itself is the empty sequence.
\<close>

theorem get_questions_returns_document:
  "get_questions (Readable (Document v)) = Inr v
   \<and> (get_questions (Readable (Document v)) = Inr (PyList [])) = (v = PyList [])"
  by (simp add: get_questions_def open_read_def json_load_def)

section \<open>What the composers return\<close>

lemma question_format_fields:
  "set (field_names question_format_template) \<subseteq> {''question''}"
  by (simp add: question_format_template_def qf_security_question_def field_names_append)

lemma validation_format_fields:
  "set (field_names validation_format_template) \<subseteq> {''report''}"
  by (simp add: validation_format_template_def vf_report_def field_names_append)

lemma question_generator_fields:
  "set (field_names question_generator_template) \<subseteq> {''target_file''}"
  by (simp add: question_generator_template_def qg_scope_def qg_total_def qg_goals_def
      qg_question_template_def qg_output_requirements_def qg_begin_def field_names_append)

lemma question_format_fill:
  "question_format g question = Inr (fill question question_format_template)"
  unfolding question_format_def by (rule format_pieces_fill [OF question_format_fields])

lemma validation_format_fill:
  "validation_format g report = Inr (fill report validation_format_template)"
  unfolding validation_format_def by (rule format_pieces_fill [OF validation_format_fields])

lemma question_generator_fill:
  "question_generator g target_file = Inr (fill target_file question_generator_template)"
  unfolding question_generator_def by (rule format_pieces_fill [OF question_generator_fields])

lemma fill_question_format:
  "fill question question_format_template =
     ''\<newline>'' @ qf_persona
     @ ''**Security Question (scope for this run):** '' @ question @ ''\<newline>''
     @ qf_architecture @ qf_key_components @ qf_files_in_scope
     @ qf_invariants_heading @ concat qf_invariants
     @ qf_mission @ qf_attack_surface @ qf_attack_vectors
     @ qf_trust_model @ qf_known_issues @ qf_impact_categories
     @ qf_output_requirements @ qf_validation_checklist @ qf_report_format @ qf_closing"
  by (simp add: question_format_template_def qf_security_question_def)

lemma fill_validation_format:
  "fill report validation_format_template =
     ''\<newline>'' @ vf_persona @ vf_claim_heading @ report @ ''\<newline>''
     @ vf_framework_heading @ vf_phase1_heading @ vf_scope_violations @ vf_in_scope_files
     @ vf_threat_model @ vf_known_issues @ vf_non_security @ vf_invalid_scenarios
     @ vf_phase2_trace @ vf_phase2_evidence @ vf_phase2_tests
     @ vf_phase3_impact @ vf_phase3_likelihood @ vf_phase4
     @ vf_output_valid @ vf_output_impact @ vf_output_recommendation @ vf_output_poc
     @ vf_output_invalid @ vf_checklist"
  by (simp add: validation_format_template_def vf_report_def)

lemma fill_question_generator:
  "fill target_file question_generator_template =
     ''\<newline>'' @ qg_title @ qg_context @ fill target_file qg_scope
     @ qg_full_context @ qg_core_files @ fill target_file qg_total
     @ qg_architecture @ qg_invariants @ qg_vulnerability_categories @ qg_impact_categories
     @ fill target_file qg_goals @ fill target_file qg_question_template
     @ fill target_file qg_output_requirements
     @ qg_target_question_count @ fill target_file qg_begin"
  by (simp add: question_generator_template_def fill_append)

section \<open>Determinism\<close>

text \<open>
  Claim C2. Each composer is a function of its argument alone: whatever the module's
  global names are bound to, in one call or in another, the same argument gives the same
  text, byte for byte.
\<close>

theorem composers_deterministic:
  "question_format g question = question_format g' question
   \<and> validation_format g report = validation_format g' report
   \<and> question_generator g target_file = question_generator g' target_file"
  by (simp add: question_format_fill validation_format_fill question_generator_fill)

section \<open>Where some texts do not occur\<close>

text \<open>
  The scenario question occurs in no line of \<open>question_format\<close> after the line that
  carries the question; the heading of a catalog entry occurs in no line of the fixed
  text of \<open>validation_format\<close>; the marks of a declared size and of a target count
  occur in the prompts of \<open>question_generator\<close> only where \<^verbatim>\<open>core_files\<close> and the
  section on the target question count stand. Each section is walked line by line.
\<close>

lemmas uni_defs =
  uni_times_def uni_em_dash_def uni_arrow_def uni_le_def uni_ge_def
  uni_warning_def uni_check_def uni_cross_def uni_vs16_def uni_flag_def

lemma one_line_scenario_question: "one_line scenario_question"
  by (simp add: one_line_def scenario_question_def)



lemma one_line_sentinel: "one_line no_finding_sentinel"
  by (simp add: one_line_def no_finding_sentinel_def)

text \<open>The headings of the 26 catalog entries, without their opening marks.\<close>

lemma catalog_tails:
  "map heading_tail qf_invariants =
     [''Solvency Maintenance**'', ''Collateral Conservation**'',
      ''Share Price Monotonicity**'', ''Interest Index Monotonicity**'',
      ''Cross-Collateral Limits**'', ''Position Size Limits**'', ''Oracle Delta Limits**'',
      ''Safe Mode Activation**'', ''TWAP Accuracy**'', ''Price Consistency**'',
      ''Liquidation Price Bounds**'', ''Position Encoding Validity**'',
      ''Leg Count Limits**'', ''Premium Accounting**'', ''Force Exercise Costs**'',
      ''Liquidation Completeness**'', ''Asset Accounting**'', ''Deposit Limits**'',
      ''Share Transfer Restrictions**'', ''Credited Shares Logic**'',
      ''Interest Accuracy**'', ''Liquidation Bonus Caps**'', ''Premium Haircutting**'',
      ''Protocol Loss Limits**'', ''Force Exercise Validation**'',
      ''Solvency Check Timing**'']"
  by (simp add: qf_invariants_def heading_tail_def text_lines_Cons)

lemma one_line_tails:
  "list_all (\<lambda>q. one_line (''**'' @ q)) (map heading_tail qf_invariants)"
  unfolding catalog_tails by (simp add: one_line_def)

lemma starts_any_tails:
  "starts_any [] (map heading_tail qf_invariants) s =
     list_ex (\<lambda>q. prefix q s)
       [''Solvency Maintenance**'', ''Collateral Conservation**'',
        ''Share Price Monotonicity**'', ''Interest Index Monotonicity**'',
        ''Cross-Collateral Limits**'', ''Position Size Limits**'', ''Oracle Delta Limits**'',
        ''Safe Mode Activation**'', ''TWAP Accuracy**'', ''Price Consistency**'',
        ''Liquidation Price Bounds**'', ''Position Encoding Validity**'',
        ''Leg Count Limits**'', ''Premium Accounting**'', ''Force Exercise Costs**'',
        ''Liquidation Completeness**'', ''Asset Accounting**'', ''Deposit Limits**'',
        ''Share Transfer Restrictions**'', ''Credited Shares Logic**'',
        ''Interest Accuracy**'', ''Liquidation Bonus Caps**'', ''Premium Haircutting**'',
        ''Protocol Loss Limits**'', ''Force Exercise Validation**'',
        ''Solvency Check Timing**'']"
  unfolding catalog_tails by (rule starts_any_Nil)

lemma catalog_headings:
  "map heading_of qf_invariants = map ((@) ''**'') (map heading_tail qf_invariants)"
  by (simp add: heading_of_def)

lemma one_line_heading: "h \<in> set (map heading_of qf_invariants) \<Longrightarrow> one_line h"
  using one_line_tails unfolding catalog_headings
  by (auto simp: list_all_iff)

lemma heading_lines_without:
  assumes "h \<in> set (map heading_of qf_invariants)"
    and "\<not> any_after ''**'' (map heading_tail qf_invariants) (text_lines ls)"
  shows "lines_without h (text_lines ls)"
  using assms unfolding catalog_headings by (rule lines_without_any)


lemma qf_architecture_without_question: "lines_without scenario_question qf_architecture"
  unfolding qf_architecture_def lines_without_text_lines [OF one_line_scenario_question]
  unfolding scenario_question_def
  by (simp only: walk_lines one_line_scenario_question [unfolded scenario_question_def] uni_defs cong: if_weak_cong)

lemma qf_key_components_without_question: "lines_without scenario_question qf_key_components"
  unfolding qf_key_components_def lines_without_text_lines [OF one_line_scenario_question]
  unfolding scenario_question_def
  by (simp only: walk_lines one_line_scenario_question [unfolded scenario_question_def] uni_defs cong: if_weak_cong)

lemma qf_files_in_scope_without_question: "lines_without scenario_question qf_files_in_scope"
  unfolding qf_files_in_scope_def lines_without_text_lines [OF one_line_scenario_question]
  unfolding scenario_question_def
  by (simp only: walk_lines one_line_scenario_question [unfolded scenario_question_def] uni_defs cong: if_weak_cong)

lemma qf_invariants_heading_without_question: "lines_without scenario_question qf_invariants_heading"
  unfolding qf_invariants_heading_def lines_without_text_lines [OF one_line_scenario_question]
  unfolding scenario_question_def
  by (simp only: walk_lines one_line_scenario_question [unfolded scenario_question_def] uni_defs cong: if_weak_cong)

lemma qf_invariants_without_question: "lines_without scenario_question (concat qf_invariants)"
  apply (rule lines_without_concat [OF one_line_scenario_question])
  unfolding qf_invariants_def list_all_Cons_iff list_all_Nil_iff lines_without_text_lines [OF one_line_scenario_question]
  unfolding scenario_question_def
  by (simp only: walk_lines one_line_scenario_question [unfolded scenario_question_def] uni_defs cong: if_weak_cong)

lemma qf_mission_without_question: "lines_without scenario_question qf_mission"
  unfolding qf_mission_def lines_without_text_lines [OF one_line_scenario_question]
  unfolding scenario_question_def
  by (simp only: walk_lines one_line_scenario_question [unfolded scenario_question_def] uni_defs cong: if_weak_cong)

lemma qf_attack_surface_without_question: "lines_without scenario_question qf_attack_surface"
  unfolding qf_attack_surface_def lines_without_text_lines [OF one_line_scenario_question]
  unfolding scenario_question_def
  by (simp only: walk_lines one_line_scenario_question [unfolded scenario_question_def] uni_defs cong: if_weak_cong)

lemma qf_attack_vectors_without_question: "lines_without scenario_question qf_attack_vectors"
  unfolding qf_attack_vectors_def lines_without_text_lines [OF one_line_scenario_question]
  unfolding scenario_question_def
  by (simp only: walk_lines one_line_scenario_question [unfolded scenario_question_def] uni_defs cong: if_weak_cong)

lemma qf_trust_model_without_question: "lines_without scenario_question qf_trust_model"
  unfolding qf_trust_model_def lines_without_text_lines [OF one_line_scenario_question]
  unfolding scenario_question_def
  by (simp only: walk_lines one_line_scenario_question [unfolded scenario_question_def] uni_defs cong: if_weak_cong)

lemma qf_known_issues_without_question: "lines_without scenario_question qf_known_issues"
  unfolding qf_known_issues_def lines_without_text_lines [OF one_line_scenario_question]
  unfolding scenario_question_def
  by (simp only: walk_lines one_line_scenario_question [unfolded scenario_question_def] uni_defs cong: if_weak_cong)

lemma qf_impact_categories_without_question: "lines_without scenario_question qf_impact_categories"
  unfolding qf_impact_categories_def lines_without_text_lines [OF one_line_scenario_question]
  unfolding scenario_question_def
  by (simp only: walk_lines one_line_scenario_question [unfolded scenario_question_def] uni_defs cong: if_weak_cong)

lemma qf_output_requirements_without_question: "lines_without scenario_question qf_output_requirements"
  unfolding qf_output_requirements_def lines_without_text_lines [OF one_line_scenario_question]
  unfolding scenario_question_def
  by (simp only: walk_lines one_line_scenario_question [unfolded scenario_question_def] uni_defs cong: if_weak_cong)

lemma qf_validation_checklist_without_question: "lines_without scenario_question qf_validation_checklist"
  unfolding qf_validation_checklist_def lines_without_text_lines [OF one_line_scenario_question]
  unfolding scenario_question_def
  by (simp only: walk_lines one_line_scenario_question [unfolded scenario_question_def] uni_defs cong: if_weak_cong)

lemma qf_report_format_without_question: "lines_without scenario_question qf_report_format"
  unfolding qf_report_format_def lines_without_text_lines [OF one_line_scenario_question]
  unfolding scenario_question_def
  by (simp only: walk_lines one_line_scenario_question [unfolded scenario_question_def] uni_defs cong: if_weak_cong)

lemma qf_closing_without_question: "lines_without scenario_question qf_closing"
  unfolding qf_closing_def lines_without_text_lines [OF one_line_scenario_question]
  unfolding scenario_question_def
  by (simp only: walk_lines one_line_scenario_question [unfolded scenario_question_def] uni_defs cong: if_weak_cong)


lemma vf_persona_without_headings:
  "h \<in> set (map heading_of qf_invariants) \<Longrightarrow> lines_without h vf_persona"
  unfolding vf_persona_def
  apply (erule heading_lines_without)
  by (simp only: any_after_lines_step [OF one_line_tails] starts_any_tails walk_any
      uni_defs cong: if_weak_cong)

lemma vf_claim_heading_without_headings:
  "h \<in> set (map heading_of qf_invariants) \<Longrightarrow> lines_without h vf_claim_heading"
  unfolding vf_claim_heading_def
  apply (erule heading_lines_without)
  by (simp only: any_after_lines_step [OF one_line_tails] starts_any_tails walk_any
      uni_defs cong: if_weak_cong)

lemma vf_framework_heading_without_headings:
  "h \<in> set (map heading_of qf_invariants) \<Longrightarrow> lines_without h vf_framework_heading"
  unfolding vf_framework_heading_def
  apply (erule heading_lines_without)
  by (simp only: any_after_lines_step [OF one_line_tails] starts_any_tails walk_any
      uni_defs cong: if_weak_cong)

lemma vf_phase1_heading_without_headings:
  "h \<in> set (map heading_of qf_invariants) \<Longrightarrow> lines_without h vf_phase1_heading"
  unfolding vf_phase1_heading_def
  apply (erule heading_lines_without)
  by (simp only: any_after_lines_step [OF one_line_tails] starts_any_tails walk_any
      uni_defs cong: if_weak_cong)

lemma vf_scope_violations_without_headings:
  "h \<in> set (map heading_of qf_invariants) \<Longrightarrow> lines_without h vf_scope_violations"
  unfolding vf_scope_violations_def
  apply (erule heading_lines_without)
  by (simp only: any_after_lines_step [OF one_line_tails] starts_any_tails walk_any
      uni_defs cong: if_weak_cong)

lemma vf_in_scope_files_without_headings:
  "h \<in> set (map heading_of qf_invariants) \<Longrightarrow> lines_without h vf_in_scope_files"
  unfolding vf_in_scope_files_def
  apply (erule heading_lines_without)
  by (simp only: any_after_lines_step [OF one_line_tails] starts_any_tails walk_any
      uni_defs cong: if_weak_cong)

lemma vf_threat_model_without_headings:
  "h \<in> set (map heading_of qf_invariants) \<Longrightarrow> lines_without h vf_threat_model"
  unfolding vf_threat_model_def
  apply (erule heading_lines_without)
  by (simp only: any_after_lines_step [OF one_line_tails] starts_any_tails walk_any
      uni_defs cong: if_weak_cong)

lemma vf_known_issues_without_headings:
  "h \<in> set (map heading_of qf_invariants) \<Longrightarrow> lines_without h vf_known_issues"
  unfolding vf_known_issues_def
  apply (erule heading_lines_without)
  by (simp only: any_after_lines_step [OF one_line_tails] starts_any_tails walk_any
      uni_defs cong: if_weak_cong)

lemma vf_non_security_without_headings:
  "h \<in> set (map heading_of qf_invariants) \<Longrightarrow> lines_without h vf_non_security"
  unfolding vf_non_security_def
  apply (erule heading_lines_without)
  by (simp only: any_after_lines_step [OF one_line_tails] starts_any_tails walk_any
      uni_defs cong: if_weak_cong)

lemma vf_invalid_scenarios_without_headings:
  "h \<in> set (map heading_of qf_invariants) \<Longrightarrow> lines_without h vf_invalid_scenarios"
  unfolding vf_invalid_scenarios_def
  apply (erule heading_lines_without)
  by (simp only: any_after_lines_step [OF one_line_tails] starts_any_tails walk_any
      uni_defs cong: if_weak_cong)

lemma vf_phase2_trace_without_headings:
  "h \<in> set (map heading_of qf_invariants) \<Longrightarrow> lines_without h vf_phase2_trace"
  unfolding vf_phase2_trace_def
  apply (erule heading_lines_without)
  by (simp only: any_after_lines_step [OF one_line_tails] starts_any_tails walk_any
      uni_defs cong: if_weak_cong)

lemma vf_phase2_evidence_without_headings:
  "h \<in> set (map heading_of qf_invariants) \<Longrightarrow> lines_without h vf_phase2_evidence"
  unfolding vf_phase2_evidence_def
  apply (erule heading_lines_without)
  by (simp only: any_after_lines_step [OF one_line_tails] starts_any_tails walk_any
      uni_defs cong: if_weak_cong)

lemma vf_phase2_tests_without_headings:
  "h \<in> set (map heading_of qf_invariants) \<Longrightarrow> lines_without h vf_phase2_tests"
  unfolding vf_phase2_tests_def
  apply (erule heading_lines_without)
  by (simp only: any_after_lines_step [OF one_line_tails] starts_any_tails walk_any
      uni_defs cong: if_weak_cong)

lemma vf_phase3_impact_without_headings:
  "h \<in> set (map heading_of qf_invariants) \<Longrightarrow> lines_without h vf_phase3_impact"
  unfolding vf_phase3_impact_def
  apply (erule heading_lines_without)
  by (simp only: any_after_lines_step [OF one_line_tails] starts_any_tails walk_any
      uni_defs cong: if_weak_cong)

lemma vf_phase3_likelihood_without_headings:
  "h \<in> set (map heading_of qf_invariants) \<Longrightarrow> lines_without h vf_phase3_likelihood"
  unfolding vf_phase3_likelihood_def
  apply (erule heading_lines_without)
  by (simp only: any_after_lines_step [OF one_line_tails] starts_any_tails walk_any
      uni_defs cong: if_weak_cong)

lemma vf_phase4_without_headings:
  "h \<in> set (map heading_of qf_invariants) \<Longrightarrow> lines_without h vf_phase4"
  unfolding vf_phase4_def
  apply (erule heading_lines_without)
  by (simp only: any_after_lines_step [OF one_line_tails] starts_any_tails walk_any
      uni_defs cong: if_weak_cong)

lemma vf_output_valid_without_headings:
  "h \<in> set (map heading_of qf_invariants) \<Longrightarrow> lines_without h vf_output_valid"
  unfolding vf_output_valid_def
  apply (erule heading_lines_without)
  by (simp only: any_after_lines_step [OF one_line_tails] starts_any_tails walk_any
      uni_defs cong: if_weak_cong)

lemma vf_output_impact_without_headings:
  "h \<in> set (map heading_of qf_invariants) \<Longrightarrow> lines_without h vf_output_impact"
  unfolding vf_output_impact_def
  apply (erule heading_lines_without)
  by (simp only: any_after_lines_step [OF one_line_tails] starts_any_tails walk_any
      uni_defs cong: if_weak_cong)

lemma vf_output_recommendation_without_headings:
  "h \<in> set (map heading_of qf_invariants) \<Longrightarrow> lines_without h vf_output_recommendation"
  unfolding vf_output_recommendation_def
  apply (erule heading_lines_without)
  by (simp only: any_after_lines_step [OF one_line_tails] starts_any_tails walk_any
      uni_defs cong: if_weak_cong)

lemma vf_output_poc_without_headings:
  "h \<in> set (map heading_of qf_invariants) \<Longrightarrow> lines_without h vf_output_poc"
  unfolding vf_output_poc_def
  apply (erule heading_lines_without)
  by (simp only: any_after_lines_step [OF one_line_tails] starts_any_tails walk_any
      uni_defs cong: if_weak_cong)

lemma vf_output_invalid_without_headings:
  "h \<in> set (map heading_of qf_invariants) \<Longrightarrow> lines_without h vf_output_invalid"
  unfolding vf_output_invalid_def
  apply (erule heading_lines_without)
  by (simp only: any_after_lines_step [OF one_line_tails] starts_any_tails walk_any
      uni_defs cong: if_weak_cong)

lemma vf_checklist_without_headings:
  "h \<in> set (map heading_of qf_invariants) \<Longrightarrow> lines_without h vf_checklist"
  unfolding vf_checklist_def
  apply (erule heading_lines_without)
  by (simp only: any_after_lines_step [OF one_line_tails] starts_any_tails walk_any
      uni_defs cong: if_weak_cong)

















































section \<open>The sections of each prompt, in their order\<close>

lemma qf_sections_in_order:
  "occur_in_order
     [qf_persona, qf_architecture, qf_key_components, qf_files_in_scope,
      qf_invariants_heading, concat qf_invariants, qf_mission, qf_attack_surface,
      qf_attack_vectors, qf_trust_model, qf_known_issues, qf_impact_categories,
      qf_output_requirements, qf_validation_checklist, qf_report_format, qf_closing]
     (fill question question_format_template)"
proof -
  let ?gs =
    "[(''\<newline>'', qf_persona),
      (''**Security Question (scope for this run):** '' @ question @ ''\<newline>'',
       qf_architecture),
      ([], qf_key_components), ([], qf_files_in_scope), ([], qf_invariants_heading),
      ([], concat qf_invariants), ([], qf_mission), ([], qf_attack_surface),
      ([], qf_attack_vectors), ([], qf_trust_model), ([], qf_known_issues),
      ([], qf_impact_categories), ([], qf_output_requirements),
      ([], qf_validation_checklist), ([], qf_report_format), ([], qf_closing)]"
  have "fill question question_format_template = interleaved ?gs @ []"
    by (simp add: fill_question_format interleaved_def)
  with occur_in_order_interleaved [of ?gs "[]"] show ?thesis
    by (simp del: occur_in_order.simps)
qed

lemma vf_sections_in_order:
  "occur_in_order
     [vf_persona, vf_claim_heading, vf_framework_heading, vf_phase1_heading,
      vf_scope_violations, vf_in_scope_files, vf_threat_model, vf_known_issues,
      vf_non_security, vf_invalid_scenarios, vf_phase2_trace, vf_phase2_evidence,
      vf_phase2_tests, vf_phase3_impact, vf_phase3_likelihood, vf_phase4,
      vf_output_valid, vf_output_impact, vf_output_recommendation, vf_output_poc,
      vf_output_invalid, vf_checklist]
     (fill report validation_format_template)"
proof -
  let ?gs =
    "[(''\<newline>'', vf_persona), ([], vf_claim_heading),
      (report @ ''\<newline>'', vf_framework_heading), ([], vf_phase1_heading),
      ([], vf_scope_violations), ([], vf_in_scope_files), ([], vf_threat_model),
      ([], vf_known_issues), ([], vf_non_security), ([], vf_invalid_scenarios),
      ([], vf_phase2_trace), ([], vf_phase2_evidence), ([], vf_phase2_tests),
      ([], vf_phase3_impact), ([], vf_phase3_likelihood), ([], vf_phase4),
      ([], vf_output_valid), ([], vf_output_impact), ([], vf_output_recommendation),
      ([], vf_output_poc), ([], vf_output_invalid), ([], vf_checklist)]"
  have "fill report validation_format_template = interleaved ?gs @ []"
    by (simp add: fill_validation_format interleaved_def)
  with occur_in_order_interleaved [of ?gs "[]"] show ?thesis
    by (simp del: occur_in_order.simps)
qed

lemma qg_sections_in_order:
  "occur_in_order
     [qg_title, qg_context, fill target_file qg_scope, qg_full_context, qg_core_files,
      fill target_file qg_total, qg_architecture, qg_invariants,
      qg_vulnerability_categories, qg_impact_categories, fill target_file qg_goals,
      fill target_file qg_question_template, fill target_file qg_output_requirements,
      qg_target_question_count, fill target_file qg_begin]
     (fill target_file question_generator_template)"
proof -
  let ?gs =
    "[(''\<newline>'', qg_title), ([], qg_context), ([], fill target_file qg_scope),
      ([], qg_full_context), ([], qg_core_files), ([], fill target_file qg_total),
      ([], qg_architecture), ([], qg_invariants), ([], qg_vulnerability_categories),
      ([], qg_impact_categories), ([], fill target_file qg_goals),
      ([], fill target_file qg_question_template),
      ([], fill target_file qg_output_requirements), ([], qg_target_question_count),
      ([], fill target_file qg_begin)]"
  have "fill target_file question_generator_template = interleaved ?gs @ []"
    by (simp add: fill_question_generator interleaved_def)
  with occur_in_order_interleaved [of ?gs "[]"] show ?thesis
    by (simp del: occur_in_order.simps)
qed




section \<open>The investigation prompt\<close>

subsection \<open>Where the question stands\<close>

lemma length_qf_persona: "length qf_persona = 494"
  by (simp add: qf_persona_def text_lines_def uni_defs)

lemma length_qf_impact_categories: "length qf_impact_categories = 793"
  by (simp add: qf_impact_categories_def text_lines_def)

lemma qf_rest_without_question:
  "lines_without scenario_question
     (qf_architecture @ qf_key_components @ qf_files_in_scope
      @ qf_invariants_heading @ concat qf_invariants
      @ qf_mission @ qf_attack_surface @ qf_attack_vectors
      @ qf_trust_model @ qf_known_issues @ qf_impact_categories
      @ qf_output_requirements @ qf_validation_checklist @ qf_report_format @ qf_closing)"
  by (intro lines_without_append one_line_scenario_question
      qf_architecture_without_question qf_key_components_without_question
      qf_files_in_scope_without_question qf_invariants_heading_without_question
      qf_invariants_without_question qf_mission_without_question
      qf_attack_surface_without_question qf_attack_vectors_without_question
      qf_trust_model_without_question qf_known_issues_without_question
      qf_impact_categories_without_question qf_output_requirements_without_question
      qf_validation_checklist_without_question qf_report_format_without_question
      qf_closing_without_question)

text \<open>
  Claim C3, as stated, fails. In the prompt that \<open>question_format\<close> returns for the
  scenario question \<^verbatim>\<open>Can utilization manipulation affect interest rates?\<close>, the
  question does not occur after the severity taxonomy and before the output requirements:
  its only place is in the opening, before the architecture primer.
\<close>

theorem question_format_order_counterexample:
  "question_format Map.empty scenario_question
     = Inr (fill scenario_question question_format_template)
   \<and> \<not> occur_in_order [qf_impact_categories, scenario_question, qf_output_requirements]
         (fill scenario_question question_format_template)"
proof (intro conjI notI)
  show "question_format Map.empty scenario_question
      = Inr (fill scenario_question question_format_template)"
    by (rule question_format_fill)
next
  let ?t = "fill scenario_question question_format_template"
  assume ord: "occur_in_order
      [qf_impact_categories, scenario_question, qf_output_requirements] ?t"
  define H where "H = ''\<newline>'' @ qf_persona @ ''**Security Question (scope for this run):** ''"
  define R where "R = qf_architecture @ qf_key_components @ qf_files_in_scope
      @ qf_invariants_heading @ concat qf_invariants
      @ qf_mission @ qf_attack_surface @ qf_attack_vectors
      @ qf_trust_model @ qf_known_issues @ qf_impact_categories
      @ qf_output_requirements @ qf_validation_checklist @ qf_report_format @ qf_closing"
  have t_eq: "?t = (H @ scenario_question) @ CHR ''\<newline>'' # R"
    by (simp add: fill_question_format H_def R_def)
  from ord obtain a b c where abc: "?t = (a @ qf_impact_categories @ b) @ scenario_question @ c"
    by auto
  have no_R: "\<not> sublist scenario_question (CHR ''\<newline>'' # R)"
    using qf_rest_without_question
      sublist_line_feed [OF one_line_scenario_question, of "[]" R] one_line_scenario_question
    by (simp add: lines_without_def R_def one_line_def)
  have len_H: "length H = 539"
    by (simp add: H_def length_qf_persona)
  show False
  proof (cases "length (scenario_question @ c) \<le> length (CHR ''\<newline>'' # R)")
    case True
    from t_eq abc have "(H @ scenario_question) @ CHR ''\<newline>'' # R
        = (a @ qf_impact_categories @ b) @ scenario_question @ c"
      by simp
    from suffix_of_shorter [OF this True] have "suffix (scenario_question @ c) (CHR ''\<newline>'' # R)" .
    then obtain p where "CHR ''\<newline>'' # R = p @ scenario_question @ c"
      by (auto simp: suffix_def)
    then have "sublist scenario_question (CHR ''\<newline>'' # R)"
      by (metis sublist_appendI)
    with no_R show False ..
  next
    case False
    from t_eq abc have "length ((H @ scenario_question) @ CHR ''\<newline>'' # R)
        = length ((a @ qf_impact_categories @ b) @ scenario_question @ c)"
      by simp
    with False have "length qf_impact_categories < length H + length scenario_question"
      by simp
    with len_H length_qf_impact_categories show False
      by (simp add: scenario_question_def)
  qed
qed

text \<open>
  Claim C3, amended. For every question, the prompt is, in this order: the persona
  framing, the verbatim question, the architecture primer with the key components and
  the files in scope, the full invariant catalog, the mission and the attack-surface
  checklists, the trust model, the known-issue exclusions, the severity taxonomy, and
  the output-contract footer. The question stands right after the persona framing.
\<close>

theorem question_format_order:
  "question_format g question =
     Inr (''\<newline>'' @ qf_persona
       @ ''**Security Question (scope for this run):** '' @ question @ ''\<newline>''
       @ qf_architecture @ qf_key_components @ qf_files_in_scope
       @ qf_invariants_heading @ concat qf_invariants
       @ qf_mission @ qf_attack_surface @ qf_attack_vectors
       @ qf_trust_model @ qf_known_issues @ qf_impact_categories
       @ qf_output_requirements @ qf_validation_checklist @ qf_report_format @ qf_closing)"
  by (simp only: question_format_fill fill_question_format)

subsection \<open>What the prompt contains\<close>

lemma qf_invariants_markers:
  "list_all2 (\<lambda>n entry. prefix (entry_marker n) entry) [1..<27] qf_invariants"
  by (simp add: qf_invariants_def entry_marker_def decimal.simps text_lines_Cons upt_rec)

lemma qf_parts_in_order:
  "occur_in_order
     [qf_persona, question, concat qf_invariants,
      qf_output_requirements @ qf_validation_checklist @ qf_report_format @ qf_closing]
     (fill question question_format_template)"
proof -
  let ?gs =
    "[(''\<newline>'', qf_persona),
      (''**Security Question (scope for this run):** '', question),
      (''\<newline>'' @ qf_architecture @ qf_key_components @ qf_files_in_scope
         @ qf_invariants_heading, concat qf_invariants),
      (qf_mission @ qf_attack_surface @ qf_attack_vectors @ qf_trust_model
         @ qf_known_issues @ qf_impact_categories,
       qf_output_requirements @ qf_validation_checklist @ qf_report_format @ qf_closing)]"
  have "fill question question_format_template = interleaved ?gs @ []"
    by (simp add: fill_question_format interleaved_def)
  with occur_in_order_interleaved [of ?gs "[]"] show ?thesis
    by (simp del: occur_in_order.simps)
qed

lemma qf_invariants_embedded:
  "list_all (\<lambda>entry. sublist entry (fill question question_format_template)) qf_invariants"
proof -
  have "sublist (concat qf_invariants) (fill question question_format_template)"
    by (rule occur_in_order_sublist [OF qf_parts_in_order]) simp
  then have "sublist entry (fill question question_format_template)"
    if "entry \<in> set qf_invariants" for entry
    using sublist_concat_member [OF that] by (rule sublist_order.order.trans [rotated])
  then show ?thesis
    by (simp add: list_all_iff)
qed

text \<open>
  Claim C4. For every question, the prompt of \<open>question_format\<close> contains the
  persona text, each of the 26 entries of the invariant catalog (entry \<open>n\<close> opening with
  its marker \<open>n\<close>, for \<open>n\<close> from 1 to 26), the output-contract footer, and the question
  itself.
\<close>

theorem question_format_complete:
  "\<exists>t. question_format g question = Inr t
     \<and> sublist qf_persona t
     \<and> list_all2 (\<lambda>n entry. prefix (entry_marker n) entry \<and> sublist entry t)
          [1..<27] qf_invariants
     \<and> sublist
          (qf_output_requirements @ qf_validation_checklist @ qf_report_format @ qf_closing) t
     \<and> sublist question t"
proof -
  let ?t = "fill question question_format_template"
  note ord = qf_parts_in_order [of question]
  have "sublist qf_persona ?t"
    by (rule occur_in_order_sublist [OF ord]) simp
  moreover have "sublist question ?t"
    by (rule occur_in_order_sublist [OF ord]) simp
  moreover have "sublist
      (qf_output_requirements @ qf_validation_checklist @ qf_report_format @ qf_closing) ?t"
    by (rule occur_in_order_sublist [OF ord]) simp
  moreover have "list_all2 (\<lambda>n entry. prefix (entry_marker n) entry \<and> sublist entry ?t)
      [1..<27] qf_invariants"
    by (rule list_all2_conj_right [OF qf_invariants_markers qf_invariants_embedded])
  ultimately show ?thesis
    by (simp add: question_format_fill)
qed

text \<open>The same at the question of the scenario: the prompt names all 26 entries.\<close>

theorem question_format_complete_witness:
  "\<exists>t. question_format Map.empty scenario_question = Inr t
     \<and> sublist qf_persona t
     \<and> list_all2 (\<lambda>n entry. prefix (entry_marker n) entry \<and> sublist entry t)
          [1..<27] qf_invariants
     \<and> sublist
          (qf_output_requirements @ qf_validation_checklist @ qf_report_format @ qf_closing) t
     \<and> sublist scenario_question t"
  by (rule question_format_complete)

section \<open>The no-finding sentinel\<close>

lemma qf_output_requirements_sentinel: "sublist no_finding_sentinel qf_output_requirements"
  unfolding qf_output_requirements_def no_finding_sentinel_def
  by (simp only: walk_lines one_line_sentinel [unfolded no_finding_sentinel_def] uni_defs
      cong: if_weak_cong)

lemma qf_closing_sentinel: "sublist no_finding_sentinel qf_closing"
  unfolding qf_closing_def no_finding_sentinel_def
  by (simp only: walk_lines one_line_sentinel [unfolded no_finding_sentinel_def] uni_defs
      cong: if_weak_cong)

lemma vf_output_invalid_sentinel: "sublist no_finding_sentinel vf_output_invalid"
  unfolding vf_output_invalid_def no_finding_sentinel_def
  by (simp only: walk_lines one_line_sentinel [unfolded no_finding_sentinel_def] uni_defs
      cong: if_weak_cong)

lemma one_line_reject:
  "one_line ''Reject immediately (`#NoVulnerability`) if **ANY** apply:''"
  by (simp add: one_line_def)

lemma vf_phase1_heading_reject:
  "sublist ''Reject immediately (`#NoVulnerability`) if **ANY** apply:'' vf_phase1_heading"
  unfolding vf_phase1_heading_def
  by (simp only: walk_lines one_line_reject uni_defs cong: if_weak_cong)

lemma vf_phase1_heading_without_sentinel:
  "\<not> sublist no_finding_sentinel vf_phase1_heading"
  unfolding vf_phase1_heading_def no_finding_sentinel_def
  by (simp only: walk_lines one_line_sentinel [unfolded no_finding_sentinel_def] uni_defs
      cong: if_weak_cong)

text \<open>
  Claim C7 holds of the design and fails on the code by a slip. The prompts describe the
  no-finding outcome in four places. Three of them give the sentinel
  \<^verbatim>\<open>#NoVulnerability found for this question.\<close> verbatim: the output requirements
  and the closing instruction of \<open>question_format\<close>, and the contract for an invalid
  claim of \<open>validation_format\<close>. The fourth, the opening of phase 1 of
  \<open>validation_format\<close>, tells the reader to reject with \<^verbatim>\<open>#NoVulnerability\<close> and
  stops there: the sentinel is cut short. The prompt for the report of the scenario shows
  it, as the prompt for any other report does.
\<close>

theorem validation_format_phase1_cuts_sentinel:
  "validation_format Map.empty scenario_report
     = Inr (fill scenario_report validation_format_template)
   \<and> sublist vf_phase1_heading (fill scenario_report validation_format_template)
   \<and> sublist ''Reject immediately (`#NoVulnerability`) if **ANY** apply:'' vf_phase1_heading
   \<and> \<not> sublist no_finding_sentinel vf_phase1_heading
   \<and> sublist vf_output_invalid (fill scenario_report validation_format_template)
   \<and> sublist no_finding_sentinel vf_output_invalid
   \<and> sublist no_finding_sentinel qf_output_requirements
   \<and> sublist no_finding_sentinel qf_closing"
proof -
  let ?t = "fill scenario_report validation_format_template"
  have "sublist vf_phase1_heading ?t"
    by (rule occur_in_order_sublist [OF vf_sections_in_order]) simp
  moreover have "sublist vf_output_invalid ?t"
    by (rule occur_in_order_sublist [OF vf_sections_in_order]) simp
  ultimately show ?thesis
    using vf_phase1_heading_reject vf_phase1_heading_without_sentinel
      vf_output_invalid_sentinel qf_output_requirements_sentinel qf_closing_sentinel
    by (simp only: validation_format_fill simp_thms)
qed

section \<open>The validation prompt and the invariant catalog\<close>

lemma vf_head_without_heading:
  assumes "h \<in> set (map heading_of qf_invariants)"
  shows "lines_without h (''\<newline>'' @ vf_persona @ vf_claim_heading)"
  by (intro lines_without_append lines_without_line_feed one_line_heading [OF assms]
      vf_persona_without_headings [OF assms] vf_claim_heading_without_headings [OF assms])

lemma vf_rest_without_heading:
  assumes "h \<in> set (map heading_of qf_invariants)"
  shows "lines_without h
     (vf_framework_heading @ vf_phase1_heading @ vf_scope_violations @ vf_in_scope_files
      @ vf_threat_model @ vf_known_issues @ vf_non_security @ vf_invalid_scenarios
      @ vf_phase2_trace @ vf_phase2_evidence @ vf_phase2_tests
      @ vf_phase3_impact @ vf_phase3_likelihood @ vf_phase4
      @ vf_output_valid @ vf_output_impact @ vf_output_recommendation @ vf_output_poc
      @ vf_output_invalid @ vf_checklist)"
  by (intro lines_without_append one_line_heading [OF assms]
      vf_framework_heading_without_headings [OF assms]
      vf_phase1_heading_without_headings [OF assms]
      vf_scope_violations_without_headings [OF assms]
      vf_in_scope_files_without_headings [OF assms]
      vf_threat_model_without_headings [OF assms]
      vf_known_issues_without_headings [OF assms]
      vf_non_security_without_headings [OF assms]
      vf_invalid_scenarios_without_headings [OF assms]
      vf_phase2_trace_without_headings [OF assms]
      vf_phase2_evidence_without_headings [OF assms]
      vf_phase2_tests_without_headings [OF assms]
      vf_phase3_impact_without_headings [OF assms]
      vf_phase3_likelihood_without_headings [OF assms]
      vf_phase4_without_headings [OF assms]
      vf_output_valid_without_headings [OF assms]
      vf_output_impact_without_headings [OF assms]
      vf_output_recommendation_without_headings [OF assms]
      vf_output_poc_without_headings [OF assms]
      vf_output_invalid_without_headings [OF assms]
      vf_checklist_without_headings [OF assms])

text \<open>
  The heading of a catalog entry is in the validation prompt only if the report has it.
\<close>

lemma validation_format_heading:
  assumes "h \<in> set (map heading_of qf_invariants)"
  shows "sublist h (fill report validation_format_template) \<longleftrightarrow> sublist h report"
proof -
  let ?A = "''\<newline>'' @ vf_persona @ vf_claim_heading"
  let ?B = "vf_framework_heading @ vf_phase1_heading @ vf_scope_violations @ vf_in_scope_files
      @ vf_threat_model @ vf_known_issues @ vf_non_security @ vf_invalid_scenarios
      @ vf_phase2_trace @ vf_phase2_evidence @ vf_phase2_tests
      @ vf_phase3_impact @ vf_phase3_likelihood @ vf_phase4
      @ vf_output_valid @ vf_output_impact @ vf_output_recommendation @ vf_output_poc
      @ vf_output_invalid @ vf_checklist"
  note one = one_line_heading [OF assms]
  have "fill report validation_format_template = ?A @ report @ CHR ''\<newline>'' # ?B"
    by (simp add: fill_validation_format)
  moreover have "sublist h (?A @ report @ CHR ''\<newline>'' # ?B)
      \<longleftrightarrow> sublist h ?A \<or> sublist h (report @ CHR ''\<newline>'' # ?B)"
    using vf_head_without_heading [OF assms]
    by (intro sublist_ends_line one) (simp add: lines_without_def)
  moreover have "sublist h (report @ CHR ''\<newline>'' # ?B)
      \<longleftrightarrow> sublist h report \<or> sublist h ?B"
    by (rule sublist_line_feed [OF one])
  ultimately show ?thesis
    using vf_head_without_heading [OF assms] vf_rest_without_heading [OF assms]
    by (simp only: lines_without_def simp_thms)
qed

text \<open>Every catalog entry opens with its number and its heading.\<close>

lemma qf_invariants_headings:
  "list_all2 (\<lambda>n entry. prefix (decimal n @ ''. '' @ heading_of entry) entry)
     [1..<27] qf_invariants"
  by (simp add: qf_invariants_def heading_of_def heading_tail_def decimal.simps
      text_lines_Cons upt_rec)

lemma heading_in_entry:
  assumes "entry \<in> set qf_invariants"
  shows "sublist (heading_of entry) entry"
proof -
  from qf_invariants_headings assms
  obtain n where "prefix (decimal n @ ''. '' @ heading_of entry) entry"
    by (auto simp: list_all2_conv_all_nth in_set_conv_nth)
  then obtain r where "entry = (decimal n @ ''. '') @ heading_of entry @ r"
    by (auto simp: prefix_def)
  then show ?thesis
    by (metis sublist_appendI)
qed

lemma first_entry: "hd qf_invariants \<in> set qf_invariants"
  by (rule hd_in_set) (simp add: qf_invariants_def)

lemma first_heading: "heading_of (hd qf_invariants) = ''**Solvency Maintenance**''"
proof -
  have "hd (map heading_tail qf_invariants) = ''Solvency Maintenance**''"
    by (simp only: catalog_tails list.sel)
  moreover have "qf_invariants \<noteq> []"
    by (simp add: qf_invariants_def)
  ultimately show ?thesis
    by (simp add: heading_of_def hd_map)
qed

lemma scenario_report_without_heading:
  "\<not> sublist ''**Solvency Maintenance**'' scenario_report"
  unfolding scenario_report_def
  by (simp only: walk_lines cong: if_weak_cong)

text \<open>
  Claim C8, as stated, fails: the prompt that \<open>validation_format\<close> returns for a
  short report that does not quote the catalog does not contain the invariant catalog;
  its first entry (\<^verbatim>\<open>1. **Solvency Maintenance**: ...\<close>) is already missing.
\<close>

theorem validation_format_catalog_counterexample:
  "validation_format Map.empty scenario_report
     = Inr (fill scenario_report validation_format_template)
   \<and> \<not> sublist (hd qf_invariants) (fill scenario_report validation_format_template)"
proof (intro conjI notI)
  show "validation_format Map.empty scenario_report
      = Inr (fill scenario_report validation_format_template)"
    by (rule validation_format_fill)
next
  assume "sublist (hd qf_invariants) (fill scenario_report validation_format_template)"
  with heading_in_entry [OF first_entry]
  have "sublist (heading_of (hd qf_invariants))
      (fill scenario_report validation_format_template)"
    by (rule sublist_order.order.trans)
  with validation_format_heading [of "heading_of (hd qf_invariants)" scenario_report]
    first_entry
  have "sublist (heading_of (hd qf_invariants)) scenario_report"
    by simp
  with scenario_report_without_heading show False
    by (simp only: first_heading)
qed

lemma one_line_documented: "one_line ''one of the 26 documented invariants''"
  by (simp add: one_line_def)

lemma one_line_which: "one_line ''Which of the 26 Panoptic invariants is violated''"
  by (simp add: one_line_def)

lemma one_line_example: "one_line ''Invariant #3: Share Price Monotonicity''"
  by (simp add: one_line_def)

lemma vf_checklist_documented: "sublist ''one of the 26 documented invariants'' vf_checklist"
  unfolding vf_checklist_def
  by (simp only: walk_lines one_line_documented uni_defs cong: if_weak_cong)

lemma vf_output_valid_which:
  "sublist ''Which of the 26 Panoptic invariants is violated'' vf_output_valid"
  unfolding vf_output_valid_def
  by (simp only: walk_lines one_line_which uni_defs cong: if_weak_cong)

lemma vf_output_valid_example:
  "sublist ''Invariant #3: Share Price Monotonicity'' vf_output_valid"
  unfolding vf_output_valid_def
  by (simp only: walk_lines one_line_example uni_defs cong: if_weak_cong)

text \<open>
  Claim C8, amended. For every report, the prompt of \<open>validation_format\<close> is the report
  inside a fixed validation framework, and the framework does not embed the invariant
  catalog. It refers to the catalog by its size ("Which of the 26 Panoptic invariants is
  violated", "one of the 26 documented invariants") and cites one entry by number and
  title as an example ("Invariant #3: Share Price Monotonicity"); but the heading of each
  of the 26 numbered catalog entries, such as \<^verbatim>\<open>**Solvency Maintenance**\<close>, occurs in
  the prompt exactly when the report itself contains it. The catalog is embedded in every
  investigation prompt, that of \<open>question_format\<close>.
\<close>

theorem validation_format_without_catalog:
  "(\<exists>t. validation_format g report = Inr t
      \<and> t = ''\<newline>'' @ vf_persona @ vf_claim_heading @ report @ ''\<newline>''
          @ vf_framework_heading @ vf_phase1_heading @ vf_scope_violations @ vf_in_scope_files
          @ vf_threat_model @ vf_known_issues @ vf_non_security @ vf_invalid_scenarios
          @ vf_phase2_trace @ vf_phase2_evidence @ vf_phase2_tests
          @ vf_phase3_impact @ vf_phase3_likelihood @ vf_phase4
          @ vf_output_valid @ vf_output_impact @ vf_output_recommendation @ vf_output_poc
          @ vf_output_invalid @ vf_checklist
      \<and> sublist ''Which of the 26 Panoptic invariants is violated'' t
      \<and> sublist ''one of the 26 documented invariants'' t
      \<and> sublist ''Invariant #3: Share Price Monotonicity'' t
      \<and> list_all2
           (\<lambda>n entry. prefix (decimal n @ ''. '' @ heading_of entry) entry
              \<and> sublist (heading_of entry) t = sublist (heading_of entry) report)
           [1..<27] qf_invariants)
   \<and> (\<exists>t. question_format g question = Inr t
      \<and> list_all (\<lambda>entry. sublist entry t) qf_invariants)"
proof (intro conjI)
  let ?t = "fill report validation_format_template"
  have "sublist vf_output_valid ?t"
    by (rule occur_in_order_sublist [OF vf_sections_in_order]) simp
  with vf_output_valid_which vf_output_valid_example
  have valid: "sublist ''Which of the 26 Panoptic invariants is violated'' ?t"
    "sublist ''Invariant #3: Share Price Monotonicity'' ?t"
    by (blast intro: sublist_order.order.trans)+
  have "sublist vf_checklist ?t"
    by (rule occur_in_order_sublist [OF vf_sections_in_order]) simp
  with vf_checklist_documented
  have checklist: "sublist ''one of the 26 documented invariants'' ?t"
    by (rule sublist_order.order.trans)
  have "list_all
      (\<lambda>entry. sublist (heading_of entry) ?t = sublist (heading_of entry) report)
      qf_invariants"
    by (simp add: list_all_iff validation_format_heading)
  with qf_invariants_headings
  have headings: "list_all2
      (\<lambda>n entry. prefix (decimal n @ ''. '' @ heading_of entry) entry
         \<and> sublist (heading_of entry) ?t = sublist (heading_of entry) report)
      [1..<27] qf_invariants"
    by (rule list_all2_conj_right)
  from valid checklist headings
  show "\<exists>t. validation_format g report = Inr t
      \<and> t = ''\<newline>'' @ vf_persona @ vf_claim_heading @ report @ ''\<newline>''
          @ vf_framework_heading @ vf_phase1_heading @ vf_scope_violations @ vf_in_scope_files
          @ vf_threat_model @ vf_known_issues @ vf_non_security @ vf_invalid_scenarios
          @ vf_phase2_trace @ vf_phase2_evidence @ vf_phase2_tests
          @ vf_phase3_impact @ vf_phase3_likelihood @ vf_phase4
          @ vf_output_valid @ vf_output_impact @ vf_output_recommendation @ vf_output_poc
          @ vf_output_invalid @ vf_checklist
      \<and> sublist ''Which of the 26 Panoptic invariants is violated'' t
      \<and> sublist ''one of the 26 documented invariants'' t
      \<and> sublist ''Invariant #3: Share Price Monotonicity'' t
      \<and> list_all2
           (\<lambda>n entry. prefix (decimal n @ ''. '' @ heading_of entry) entry
              \<and> sublist (heading_of entry) t = sublist (heading_of entry) report)
           [1..<27] qf_invariants"
    by (intro exI [of _ ?t] conjI)
      (simp_all only: validation_format_fill fill_validation_format)
next
  show "\<exists>t. question_format g question = Inr t
      \<and> list_all (\<lambda>entry. sublist entry t) qf_invariants"
    using qf_invariants_embedded [of question]
    by (simp only: question_format_fill sum.inject ex_simps simp_thms)
qed

section \<open>The target question count\<close>























section \<open>Totality\<close>


section \<open>Twelve files under the label of eleven\<close>

lemmas enclosed_eval =
  enclosed_def enclosed_from.simps list.map concat.simps append.simps filter.simps
  suffix_to_prefix rev.simps prefix_step prefix_Nil Nil_prefix
  char.inject list.inject list.distinct simp_thms if_True if_False

lemma qf_key_components_files:
  "sol_files qf_key_components =
     [''PanopticPool.sol'', ''SemiFungiblePositionManager.sol'',
      ''SemiFungiblePositionManagerV4.sol'', ''RiskEngine.sol'', ''CollateralTracker.sol'',
      ''OraclePack.sol'', ''PanopticMath.sol'', ''Math.sol'', ''RiskParameters.sol'',
      ''MarketState.sol'', ''PoolData.sol'', ''TokenId.sol'']"
  unfolding sol_files_def qf_key_components_def
  apply (subst enclosed_text_lines)
    apply simp
   apply simp
  apply (simp only: enclosed_eval cong: if_weak_cong)
  done

lemma vf_in_scope_files_files:
  "sol_files vf_in_scope_files =
     [''PanopticPool.sol'', ''RiskEngine.sol'', ''CollateralTracker.sol'',
      ''SemiFungiblePositionManager.sol'', ''SemiFungiblePositionManagerV4.sol'',
      ''OraclePack.sol'', ''MarketState.sol'', ''PoolData.sol'', ''RiskParameters.sol'',
      ''TokenId.sol'', ''PanopticMath.sol'', ''Math.sol'']"
  unfolding sol_files_def vf_in_scope_files_def
  apply (subst enclosed_text_lines)
    apply simp
   apply simp
  apply (simp only: enclosed_eval cong: if_weak_cong)
  done

lemma qg_core_files_paths:
  "enclosed (CHR 0x22) qg_core_files =
     [''contracts/PanopticPool.sol'', ''contracts/RiskEngine.sol'',
      ''contracts/SemiFungiblePositionManager.sol'',
      ''contracts/SemiFungiblePositionManagerV4.sol'', ''contracts/CollateralTracker.sol'',
      ''contracts/types/OraclePack.sol'', ''contracts/types/MarketState.sol'',
      ''contracts/types/PoolData.sol'', ''contracts/types/RiskParameters.sol'',
      ''contracts/libraries/PanopticMath.sol'', ''contracts/libraries/Math.sol'']"
  unfolding qg_core_files_def
  apply (subst enclosed_text_lines)
    apply simp
   apply simp
  apply (simp only: enclosed_eval cong: if_weak_cong)
  done

lemma one_line_token_id: "one_line ''TokenId.sol''"
  by (simp add: one_line_def)

lemma qg_core_files_without_token_id: "\<not> sublist ''TokenId.sol'' qg_core_files"
  unfolding qg_core_files_def
  by (simp only: walk_lines one_line_token_id uni_defs cong: if_weak_cong)

lemma one_line_all_11: "one_line ''**Files in Scope**: All 11 core contracts''"
  by (simp add: one_line_def)

lemma qf_files_in_scope_label:
  "sublist ''**Files in Scope**: All 11 core contracts'' qf_files_in_scope"
  unfolding qf_files_in_scope_def
  by (simp only: walk_lines one_line_all_11 uni_defs cong: if_weak_cong)

lemma one_line_11_total: "one_line ''**In-Scope Files (11 total):**''"
  by (simp add: one_line_def)

lemma vf_in_scope_files_label: "sublist ''**In-Scope Files (11 total):**'' vf_in_scope_files"
  unfolding vf_in_scope_files_def
  by (simp only: walk_lines one_line_11_total uni_defs cong: if_weak_cong)

lemma one_line_11_files: "one_line ''### **Core Protocol Contracts - 11 files**''"
  by (simp add: one_line_def)

lemma qg_full_context_label:
  "sublist ''### **Core Protocol Contracts - 11 files**'' qg_full_context"
  unfolding qg_full_context_def
  by (simp only: walk_lines one_line_11_files uni_defs cong: if_weak_cong)

lemma qg_total_label:
  "prefix ''**Total: 11 files in full scope'' (fill target_file qg_total)"
  by (simp add: qg_total_def)

text \<open>
  Claim C10. The inventory \<open>questions_generator\<close> has 12 entries, one of them
  \<^verbatim>\<open>./contracts/types/TokenId.sol\<close>, while every prompt speaks of 11 files in scope:
  the key components of \<open>question_format\<close> and the in-scope list of
  \<open>validation_format\<close> each name 12 Solidity files, \<^verbatim>\<open>TokenId.sol\<close> among them,
  under the label of 11; the \<open>core_files\<close> list of \<open>question_generator\<close> names 11
  paths and leaves \<^verbatim>\<open>TokenId.sol\<close> out.
\<close>

theorem eleven_declared_twelve_listed:
  "length questions_generator = 12
   \<and> ''./contracts/types/TokenId.sol'' \<in> set questions_generator
   \<and> (\<exists>t. question_format g question = Inr t
        \<and> sublist qf_key_components t \<and> sublist qf_files_in_scope t)
   \<and> sublist ''**Files in Scope**: All 11 core contracts'' qf_files_in_scope
   \<and> length (sol_files qf_key_components) = 12
   \<and> distinct (sol_files qf_key_components)
   \<and> ''TokenId.sol'' \<in> set (sol_files qf_key_components)
   \<and> (\<exists>t. validation_format g report = Inr t \<and> sublist vf_in_scope_files t)
   \<and> sublist ''**In-Scope Files (11 total):**'' vf_in_scope_files
   \<and> length (sol_files vf_in_scope_files) = 12
   \<and> distinct (sol_files vf_in_scope_files)
   \<and> ''TokenId.sol'' \<in> set (sol_files vf_in_scope_files)
   \<and> (\<exists>t. question_generator g target_file = Inr t
        \<and> sublist qg_full_context t \<and> sublist qg_core_files t
        \<and> sublist (fill target_file qg_total) t)
   \<and> sublist ''### **Core Protocol Contracts - 11 files**'' qg_full_context
   \<and> prefix ''**Total: 11 files in full scope'' (fill target_file qg_total)
   \<and> length (enclosed (CHR 0x22) qg_core_files) = 11
   \<and> distinct (enclosed (CHR 0x22) qg_core_files)
   \<and> \<not> sublist ''TokenId.sol'' qg_core_files"
proof -
  have qf: "sublist qf_key_components (fill question question_format_template)"
    "sublist qf_files_in_scope (fill question question_format_template)"
    by (rule occur_in_order_sublist [OF qf_sections_in_order], simp)+
  have vf: "sublist vf_in_scope_files (fill report validation_format_template)"
    by (rule occur_in_order_sublist [OF vf_sections_in_order]) simp
  have qg: "sublist qg_full_context (fill target_file question_generator_template)"
    "sublist qg_core_files (fill target_file question_generator_template)"
    "sublist (fill target_file qg_total) (fill target_file question_generator_template)"
    by (rule occur_in_order_sublist [OF qg_sections_in_order], simp)+
  have inventory: "length questions_generator = 12"
    "''./contracts/types/TokenId.sol'' \<in> set questions_generator"
    by (simp_all add: questions_generator_def)
  have lists: "length (sol_files qf_key_components) = 12"
    "distinct (sol_files qf_key_components)"
    "''TokenId.sol'' \<in> set (sol_files qf_key_components)"
    "length (sol_files vf_in_scope_files) = 12"
    "distinct (sol_files vf_in_scope_files)"
    "''TokenId.sol'' \<in> set (sol_files vf_in_scope_files)"
    "length (enclosed (CHR 0x22) qg_core_files) = 11"
    "distinct (enclosed (CHR 0x22) qg_core_files)"
    by (simp_all add: qf_key_components_files vf_in_scope_files_files qg_core_files_paths)
  from qf vf qg inventory lists qf_files_in_scope_label vf_in_scope_files_label
    qg_full_context_label qg_total_label [of target_file] qg_core_files_without_token_id
  show ?thesis
    by (simp only: question_format_fill validation_format_fill question_generator_fill
        simp_thms ex_simps sum.inject not_False_eq_True)
qed


end
